theory Spec2Isabelle
  imports Complex_Main "HOL-Library.List_Lexorder" "HOL-Library.Char_ord"
begin

section \<open>JavaScript strings\<close>

text \<open>
  A JavaScript string is a sequence of UTF-16 code units. A code unit is modelled as a
  natural number (below 65536 in every real string; no function below depends on that
  bound), a string as the list of its code units. \<open>js\<close> writes an ASCII literal as
  such a list.
\<close>

type_synonym code_unit = nat

type_synonym jsstring = "code_unit list"

definition js :: "string \<Rightarrow> jsstring" where
  "js s = map of_char s"

text \<open>\<open>x || d\<close> on strings: the empty string is falsy.\<close>

definition or_else :: "jsstring \<Rightarrow> jsstring \<Rightarrow> jsstring" where
  "or_else x d = (if x = [] then d else x)"

text \<open>
  A value that is a string, \<open>undefined\<close> or \<open>null\<close> is a \<open>jsstring option\<close>, with
  \<open>None\<close> for the two nullish values. \<open>x ?? d\<close> replaces a nullish value, \<open>x || y\<close>
  a falsy one (nullish, or the empty string).
\<close>

definition nullish_or :: "jsstring option \<Rightarrow> jsstring \<Rightarrow> jsstring" where
  "nullish_or x d = (case x of None \<Rightarrow> d | Some s \<Rightarrow> s)"

definition truthy :: "jsstring option \<Rightarrow> bool" where
  "truthy x = (case x of None \<Rightarrow> False | Some s \<Rightarrow> s \<noteq> [])"

definition falsy_or :: "jsstring option \<Rightarrow> jsstring option \<Rightarrow> jsstring option" where
  "falsy_or x y = (if truthy x then x else y)"

text \<open>
  \<open>s.replace(/[class]/g, f)\<close> for a character class: every code unit of the class is
  replaced by what the callback returns for it, from left to right; the others are kept.
\<close>

fun replace_class :: "(code_unit \<Rightarrow> bool) \<Rightarrow> (code_unit \<Rightarrow> jsstring) \<Rightarrow> jsstring \<Rightarrow> jsstring" where
  "replace_class P f [] = []"
| "replace_class P f (c # cs) = (if P c then f c else [c]) @ replace_class P f cs"

text \<open>
  The white space of \<open>\s\<close> and of \<open>trim\<close> (WhiteSpace and LineTerminator of the
  language): TAB, LF, VT, FF, CR, SPACE, NO-BREAK SPACE, U+1680, U+2000 to U+200A,
  U+2028, U+2029, U+202F, U+205F, U+3000 and U+FEFF.
\<close>

definition is_ws :: "code_unit \<Rightarrow> bool" where
  "is_ws c =
     ((0x09 \<le> c \<and> c \<le> 0x0D) \<or> c = 0x20 \<or> c = 0xA0 \<or> c = 0x1680
      \<or> (0x2000 \<le> c \<and> c \<le> 0x200A) \<or> c = 0x2028 \<or> c = 0x2029 \<or> c = 0x202F
      \<or> c = 0x205F \<or> c = 0x3000 \<or> c = 0xFEFF)"

definition trim :: "jsstring \<Rightarrow> jsstring" where
  "trim s = rev (dropWhile is_ws (rev (dropWhile is_ws s)))"

text \<open>
  \<open>s.replace(/\s+/g, ' ')\<close>: every maximal run of white space becomes one SPACE.
\<close>

function collapse_ws :: "jsstring \<Rightarrow> jsstring" where
  "collapse_ws [] = []"
| "collapse_ws (c # cs) =
     (if is_ws c then 0x20 # collapse_ws (dropWhile is_ws cs) else c # collapse_ws cs)"
  by pat_completeness auto
termination
  by (relation "measure length") (auto simp: length_dropWhile_le less_Suc_eq_le)

text \<open>
  \<open>toLowerCase\<close>, \<open>toUpperCase\<close> and \<open>normalize('NFKD')\<close> are functions of the
  JavaScript engine. What they return is fixed by the case mappings and the
  decompositions of the Unicode Character Database, tables that are not part of the
  program. The model takes the three functions as a parameter: a \<open>platform\<close> holds
  them, and every function of the program that calls one of them has the platform as
  its first argument. On strings the three functions always return a string. The
  theorems below hold for every platform, hence for the one of any browser.
\<close>

record platform =
  toLowerCase :: "jsstring \<Rightarrow> jsstring"
  toUpperCase :: "jsstring \<Rightarrow> jsstring"
  normalize_NFKD :: "jsstring \<Rightarrow> jsstring"

text \<open>\<open>s.startsWith(p)\<close> and \<open>s.includes(q)\<close>: prefix and substring tests.\<close>

fun startsWith :: "jsstring \<Rightarrow> jsstring \<Rightarrow> bool" where
  "startsWith s [] = True"
| "startsWith [] (q # qs) = False"
| "startsWith (c # cs) (q # qs) = (c = q \<and> startsWith cs qs)"

fun str_includes :: "jsstring \<Rightarrow> jsstring \<Rightarrow> bool" where
  "str_includes [] q = startsWith [] q"
| "str_includes (c # cs) q = (startsWith (c # cs) q \<or> str_includes cs q)"

text \<open>
  \<open>array.join(sep)\<close>: the elements with the separator between them; an \<open>undefined\<close>
  or \<open>null\<close> element is joined as the empty string.
\<close>

fun join :: "jsstring \<Rightarrow> jsstring option list \<Rightarrow> jsstring" where
  "join sep [] = []"
| "join sep [x] = nullish_or x []"
| "join sep (x # y # ys) = nullish_or x [] @ sep @ join sep (y # ys)"

text \<open>\<open>s.split(sep)\<close> for a separator of one code unit.\<close>

fun split_on :: "code_unit \<Rightarrow> jsstring \<Rightarrow> jsstring list" where
  "split_on sep [] = [[]]"
| "split_on sep (c # cs) =
     (if c = sep then [] # split_on sep cs
      else (case split_on sep cs of [] \<Rightarrow> [[c]] | w # ws \<Rightarrow> (c # w) # ws))"

text \<open>
  \<open>[...new Set(xs)]\<close>: the elements of \<open>xs\<close> without repetitions, each at the place of
  its first occurrence.
\<close>

fun uniq :: "'a list \<Rightarrow> 'a list" where
  "uniq [] = []"
| "uniq (x # xs) = x # uniq (filter (\<lambda>y. y \<noteq> x) xs)"

section \<open>escapeHtml\<close>

text \<open>
  \<^verbatim>\<open>
  function escapeHtml(s) {
    return String(s ?? '').replace(/[&<>"']/g, c => ({
      '&': '&amp;', '<': '&lt;', '>': '&gt;', '"': '&quot;', "'": '&#039;'
    })[c] || c);
  }
  \<close>
  The code units are \<open>&\<close> = 0x26, \<open><\<close> = 0x3C, \<open>>\<close> = 0x3E, the double quote = 0x22
  and the single quote = 0x27.
\<close>

definition html_special :: "code_unit \<Rightarrow> bool" where
  "html_special c = (c = 0x26 \<or> c = 0x3C \<or> c = 0x3E \<or> c = 0x22 \<or> c = 0x27)"

definition entity_table :: "(code_unit \<times> jsstring) list" where
  "entity_table =
     [(0x26, js ''&amp;''), (0x3C, js ''&lt;''), (0x3E, js ''&gt;''),
      (0x22, js ''&quot;''), (0x27, js ''&#039;'')]"

definition escape_callback :: "code_unit \<Rightarrow> jsstring" where
  "escape_callback c =
     (case map_of entity_table c of None \<Rightarrow> [c] | Some e \<Rightarrow> or_else e [c])"

definition escapeHtml :: "jsstring option \<Rightarrow> jsstring" where
  "escapeHtml s = replace_class html_special escape_callback (nullish_or s [])"

text \<open>The replacement the claim describes: each of the five characters by its entity.\<close>

definition html_entity_spec :: "code_unit \<Rightarrow> jsstring" where
  "html_entity_spec c =
     (if c = 0x26 then js ''&amp;''
      else if c = 0x3C then js ''&lt;''
      else if c = 0x3E then js ''&gt;''
      else if c = 0x22 then js ''&quot;''
      else if c = 0x27 then js ''&#039;''
      else [c])"

section \<open>makeKey\<close>

text \<open>
  \<^verbatim>\<open>
  function makeKey(title) {
    return String(title || '')
      .toLowerCase()
      .normalize('NFKD')
      .replace(/[\u0300-\u036f]/g, '') // strip diacritics
      .replace(/\s+/g, ' ')             // collapse spaces
      .trim();
  }
  \<close>
  The argument is a title, a string or absent; \<open>title || ''\<close> makes the empty string
  of an absent one.
\<close>

definition is_diacritic :: "code_unit \<Rightarrow> bool" where
  "is_diacritic c = (0x300 \<le> c \<and> c \<le> 0x36F)"

definition strip_diacritics :: "jsstring \<Rightarrow> jsstring" where
  "strip_diacritics s = replace_class is_diacritic (\<lambda>c. []) s"

definition makeKey :: "platform \<Rightarrow> jsstring option \<Rightarrow> jsstring" where
  "makeKey p title =
     trim (collapse_ws (strip_diacritics (normalize_NFKD p (toLowerCase p
       (nullish_or (falsy_or title (Some [])) [])))))"

text \<open>
  A notion for the proofs about makeKey: the strings in which white space occurs only
  as single SPACE characters.
\<close>

fun collapsed :: "jsstring \<Rightarrow> bool" where
  "collapsed [] = True"
| "collapsed [c] = (is_ws c \<longrightarrow> c = 0x20)"
| "collapsed (c # d # s) = ((is_ws c \<longrightarrow> c = 0x20 \<and> \<not> is_ws d) \<and> collapsed (d # s))"

section \<open>Movies and the page state\<close>

text \<open>
  A movie object of the catalog, with the fields the search reads. A property of a
  JavaScript object can be missing: \<open>None\<close> is an \<open>undefined\<close> (or \<open>null\<close>) field.
  The other fields of a movie (descriptions, director, year, image addresses and the raw
  primary and secondary values) are display data that none of the functions below reads.
\<close>

record movie =
  title :: "jsstring option"
  pacing_style :: "jsstring option"
  energy_level :: "jsstring option"
  visual_aesthetic :: "jsstring option"
  target_audience :: "jsstring option"
  narrative_structure :: "jsstring option"
  profile_text :: "jsstring option"
  emotional_tone :: "jsstring list option"
  themes :: "jsstring list option"
  similar_films :: "jsstring list option"
  cultural_context :: "jsstring list option"
  discussion_topics :: "jsstring list option"

text \<open>
  \<^verbatim>\<open>
  const state = {
    data: [],            // array of movie objects
    filterTones: new Set(),
    filterThemes: new Set(),
    search: '',
    page: 1,
    pageSize: 24,
    apiBase: '',
    featuredTheme: null, // featured theme configuration
  };
  \<close>
  A \<open>Set\<close> is the list of its elements in insertion order, which is the order its
  iteration follows. \<open>featuredTheme\<close> configures the home page only and is left out.
\<close>

record state =
  data :: "movie list"
  filterTones :: "jsstring list"
  filterThemes :: "jsstring list"
  search :: jsstring
  page :: int
  pageSize :: int
  apiBase :: jsstring

definition initial_state :: state where
  "initial_state =
     \<lparr>data = [], filterTones = [], filterThemes = [], search = [], page = 1,
      pageSize = 24, apiBase = []\<rparr>"

text \<open>
  The exceptions the modelled code can meet: a TypeError (a property read or a call on
  \<open>undefined\<close>, a failed \<open>fetch\<close>), the URIError of \<open>encodeURIComponent\<close>, the
  SyntaxError of a response that is not JSON, and the \<open>Error\<close> that renderUsingApi throws
  itself for a response whose status is not ok.
\<close>

datatype error = TypeError | URIError | SyntaxError | HttpError

section \<open>applyFilters\<close>

text \<open>
  \<^verbatim>\<open>
  function applyFilters(arr) {
    const q = state.search;
    const toneSet = state.filterTones;
    const themeSet = state.filterThemes;
    return arr.filter(m => {
      // Search
      if (q) {
        const hay = [
          m.title, m.pacing_style, m.energy_level, m.visual_aesthetic,
          m.target_audience, m.narrative_structure, m.profile_text,
          ...m.emotional_tone, ...m.themes, ...m.similar_films,
          ...m.cultural_context, ...m.discussion_topics,
        ].join(' ').toLowerCase();
        const matches = hay.includes(q);
        if (!matches) return false;
      }
      // Tone filter: require all selected tones (AND)
      if (toneSet.size) {
        for (const t of toneSet) if (!m.emotional_tone.includes(t)) return false;
      }
      // Theme filter: require all selected themes (AND)
      if (themeSet.size) {
        for (const t of themeSet) if (!m.themes.includes(t)) return false;
      }
      return true;
    });
  }
  \<close>
  Spreading an \<open>undefined\<close> field, or calling \<open>includes\<close> on one, raises a TypeError;
  an \<open>undefined\<close> element of the array literal is joined as the empty string.
\<close>

definition spread :: "jsstring list option \<Rightarrow> error + jsstring option list" where
  "spread field = (case field of None \<Rightarrow> Inl TypeError | Some xs \<Rightarrow> Inr (map Some xs))"

definition hay_elements :: "movie \<Rightarrow> error + jsstring option list" where
  "hay_elements m =
     (case spread (emotional_tone m) of Inl e \<Rightarrow> Inl e | Inr tones \<Rightarrow>
     (case spread (themes m) of Inl e \<Rightarrow> Inl e | Inr ths \<Rightarrow>
     (case spread (similar_films m) of Inl e \<Rightarrow> Inl e | Inr films \<Rightarrow>
     (case spread (cultural_context m) of Inl e \<Rightarrow> Inl e | Inr ctx \<Rightarrow>
     (case spread (discussion_topics m) of Inl e \<Rightarrow> Inl e | Inr topics \<Rightarrow>
        Inr ([title m, pacing_style m, energy_level m, visual_aesthetic m,
              target_audience m, narrative_structure m, profile_text m]
             @ tones @ ths @ films @ ctx @ topics))))))"

definition hay :: "platform \<Rightarrow> movie \<Rightarrow> error + jsstring" where
  "hay p m =
     (case hay_elements m of Inl e \<Rightarrow> Inl e
      | Inr elems \<Rightarrow> Inr (toLowerCase p (join [0x20] elems)))"

text \<open>
  The loop \<open>for (const t of set) if (!field.includes(t)) return false;\<close>, which leaves
  the callback at the first selected value the movie does not have.
\<close>

fun has_all :: "jsstring list \<Rightarrow> jsstring list \<Rightarrow> bool" where
  "has_all [] field = True"
| "has_all (t # ts) field = (if t \<notin> set field then False else has_all ts field)"

definition filter_step :: "jsstring list \<Rightarrow> jsstring list option \<Rightarrow> error + bool" where
  "filter_step selected field =
     (if selected \<noteq> [] then
        (case field of None \<Rightarrow> Inl TypeError | Some xs \<Rightarrow> Inr (has_all selected xs))
      else Inr True)"

definition search_step :: "platform \<Rightarrow> jsstring \<Rightarrow> movie \<Rightarrow> error + bool" where
  "search_step p q m =
     (if q \<noteq> [] then
        (case hay p m of Inl e \<Rightarrow> Inl e | Inr h \<Rightarrow> Inr (str_includes h q))
      else Inr True)"

text \<open>
  The three steps of the callback in sequence: an exception ends it, a failed test
  returns false at once, and only a passed test goes on to the next step.
\<close>

definition keeps :: "platform \<Rightarrow> state \<Rightarrow> movie \<Rightarrow> error + bool" where
  "keeps p st m =
     (case search_step p (search st) m of Inl e \<Rightarrow> Inl e | Inr False \<Rightarrow> Inr False
      | Inr True \<Rightarrow>
     (case filter_step (filterTones st) (emotional_tone m) of Inl e \<Rightarrow> Inl e
      | Inr False \<Rightarrow> Inr False
      | Inr True \<Rightarrow>
     (case filter_step (filterThemes st) (themes m) of Inl e \<Rightarrow> Inl e
      | Inr False \<Rightarrow> Inr False
      | Inr True \<Rightarrow> Inr True)))"

text \<open>
  \<open>arr.filter(callback)\<close>: the elements the callback keeps, in the order of \<open>arr\<close>; an
  exception of the callback ends the whole call.
\<close>

fun array_filter :: "('a \<Rightarrow> error + bool) \<Rightarrow> 'a list \<Rightarrow> error + 'a list" where
  "array_filter p [] = Inr []"
| "array_filter p (x # xs) =
     (case p x of Inl e \<Rightarrow> Inl e
      | Inr keep \<Rightarrow>
          (case array_filter p xs of Inl e \<Rightarrow> Inl e
           | Inr ys \<Rightarrow> Inr (if keep then x # ys else ys)))"

definition applyFilters :: "platform \<Rightarrow> state \<Rightarrow> movie list \<Rightarrow> error + movie list" where
  "applyFilters p st arr = array_filter (keeps p st) arr"

text \<open>
  A movie has its arrays when none of the five array fields is missing. Every movie
  that normalizeMovie or mergeMovies builds has them (shown below).
\<close>

definition has_arrays :: "movie \<Rightarrow> bool" where
  "has_arrays m =
     (emotional_tone m \<noteq> None \<and> themes m \<noteq> None \<and> similar_films m \<noteq> None
      \<and> cultural_context m \<noteq> None \<and> discussion_topics m \<noteq> None)"

text \<open>The elements of an array field, none for a missing one.\<close>

definition elements :: "jsstring list option \<Rightarrow> jsstring list" where
  "elements field = (case field of None \<Rightarrow> [] | Some xs \<Rightarrow> xs)"

text \<open>
  The text the search looks into, in the words of the claim: the title, the profile
  fields, the emotional tones, themes, similar films, cultural context and discussion
  topics, joined with spaces and lowercased.
\<close>

definition search_text :: "platform \<Rightarrow> movie \<Rightarrow> jsstring" where
  "search_text p m =
     toLowerCase p (join [0x20]
       ([title m, pacing_style m, energy_level m, visual_aesthetic m, target_audience m,
         narrative_structure m, profile_text m]
        @ map Some (elements (emotional_tone m) @ elements (themes m)
            @ elements (similar_films m) @ elements (cultural_context m)
            @ elements (discussion_topics m))))"

text \<open>The movies of the claim: the ones that match the query and have every selected value.\<close>

definition matches_spec :: "platform \<Rightarrow> state \<Rightarrow> movie \<Rightarrow> bool" where
  "matches_spec p st m =
     ((search st = [] \<or> (\<exists>before after. search_text p m = before @ search st @ after))
      \<and> set (filterTones st) \<subseteq> set (elements (emotional_tone m))
      \<and> set (filterThemes st) \<subseteq> set (elements (themes m)))"

section \<open>Loading the catalog: normalizeMovie, mergeMovies, loadAllSources\<close>

text \<open>
  A profile object as the movie files hold it. A text property is a string or is
  missing (\<open>None\<close>: absent, \<open>undefined\<close> or \<open>null\<close>); a list property is missing, one
  string, or an array whose elements are strings or \<open>null\<close>. Numbers, booleans and
  nested objects as property values are not modelled.
\<close>

datatype raw_list = Missing | Single jsstring | Array "jsstring option list"

record raw_movie =
  obj_title :: "jsstring option"
  obj_Title :: "jsstring option"
  obj_primary_emotional_tone :: "jsstring option"
  obj_secondary_emotional_tone :: "jsstring option"
  obj_primary_theme :: "jsstring option"
  obj_secondary_theme :: "jsstring option"
  obj_pacing_style :: "jsstring option"
  obj_visual_aesthetic :: "jsstring option"
  obj_target_audience :: "jsstring option"
  obj_similar_films :: raw_list
  obj_cultural_context :: raw_list
  obj_narrative_structure :: "jsstring option"
  obj_energy_level :: "jsstring option"
  obj_discussion_topics :: raw_list
  obj_profile_text :: "jsstring option"

text \<open>\<open>word.charAt(0).toUpperCase() + word.slice(1)\<close>\<close>

definition capitalize :: "platform \<Rightarrow> jsstring \<Rightarrow> jsstring" where
  "capitalize p word = toUpperCase p (take 1 word) @ drop 1 word"

text \<open>
  \<^verbatim>\<open>
  function formatTheme(theme) {
    if (!theme || theme === 'none') return null;
    return theme
      .split('_')
      .map(word => word.charAt(0).toUpperCase() + word.slice(1))
      .join(' ');
  }
  \<close>
\<close>

definition formatTheme :: "platform \<Rightarrow> jsstring option \<Rightarrow> jsstring option" where
  "formatTheme p theme =
     (if \<not> truthy theme \<or> theme = Some (js ''none'') then None
      else Some (join [0x20]
             (map (\<lambda>word. Some (capitalize p word)) (split_on 0x5F (nullish_or theme [])))))"

text \<open>
  \<^verbatim>\<open>
  function formatEmotionalTone(tone) {
    if (!tone || tone === 'none') return null;
    const validTones = new Set([
      'dramatic', 'dark', 'romantic', 'contemplative', 'melancholic', 'tense',
      'uplifting', 'comedic', 'intense', 'mysterious', 'suspenseful', 'thrilling',
      'heartwarming', 'poignant', 'nostalgic', 'reflective', 'energetic', 'epic',
      'heroic', 'inspirational', 'lighthearted', 'whimsical', 'surreal', 'mystical',
      'transformative', 'action-packed', 'adventurous', 'psychological', 'existential'
    ]);
    if (validTones.has(tone.toLowerCase())) {
      return tone.charAt(0).toUpperCase() + tone.slice(1);
    }
    if (tone.includes('_')) {
      return null; // Don't include theme-like values in emotional tones
    }
    return tone.charAt(0).toUpperCase() + tone.slice(1);
  }
  \<close>
\<close>

definition validTones :: "jsstring list" where
  "validTones = map js
     [''dramatic'', ''dark'', ''romantic'', ''contemplative'', ''melancholic'', ''tense'',
      ''uplifting'', ''comedic'', ''intense'', ''mysterious'', ''suspenseful'',
      ''thrilling'', ''heartwarming'', ''poignant'', ''nostalgic'', ''reflective'',
      ''energetic'', ''epic'', ''heroic'', ''inspirational'', ''lighthearted'',
      ''whimsical'', ''surreal'', ''mystical'', ''transformative'', ''action-packed'',
      ''adventurous'', ''psychological'', ''existential'']"

definition formatEmotionalTone :: "platform \<Rightarrow> jsstring option \<Rightarrow> jsstring option" where
  "formatEmotionalTone p tone =
     (if \<not> truthy tone \<or> tone = Some (js ''none'') then None
      else if toLowerCase p (nullish_or tone []) \<in> set validTones
        then Some (capitalize p (nullish_or tone []))
      else if str_includes (nullish_or tone []) [0x5F] then None
      else Some (capitalize p (nullish_or tone [])))"

text \<open>
  \<^verbatim>\<open>
  function toArray(v) {
    if (!v) return [];
    if (Array.isArray(v)) return v.filter(Boolean).map(x => String(x));
    return [String(v)];
  }
  \<close>
\<close>

definition truthy_strings :: "jsstring option list \<Rightarrow> jsstring list" where
  "truthy_strings xs = map (\<lambda>x. nullish_or x []) (filter truthy xs)"

definition toArray :: "raw_list \<Rightarrow> jsstring list" where
  "toArray v =
     (case v of
        Missing \<Rightarrow> []
      | Single s \<Rightarrow> (if s = [] then [] else [s])
      | Array xs \<Rightarrow> truthy_strings xs)"

text \<open>
  \<^verbatim>\<open>
  function normalizeMovie(obj) {
    return {
      title: String(obj.title || obj.Title || 'Untitled'),
      emotional_tone: [formatEmotionalTone(obj.primary_emotional_tone),
                       formatEmotionalTone(obj.secondary_emotional_tone)]
                      .filter(t => t && t !== 'none'),
      themes: [formatTheme(obj.primary_theme), formatTheme(obj.secondary_theme)]
              .filter(t => t && t !== 'none'),
      pacing_style: String(obj.pacing_style ?? ''),
      visual_aesthetic: String(obj.visual_aesthetic ?? ''),
      target_audience: String(obj.target_audience ?? ''),
      similar_films: toArray(obj.similar_films),
      cultural_context: toArray(obj.cultural_context),
      narrative_structure: String(obj.narrative_structure ?? ''),
      energy_level: String(obj.energy_level ?? ''),
      discussion_topics: toArray(obj.discussion_topics),
      profile_text: String(obj.profile_text ?? ''),
      ...
    };
  }
  \<close>
\<close>

definition not_none :: "jsstring option list \<Rightarrow> jsstring list" where
  "not_none xs = truthy_strings (filter (\<lambda>t. t \<noteq> Some (js ''none'')) xs)"

definition normalizeMovie :: "platform \<Rightarrow> raw_movie \<Rightarrow> movie" where
  "normalizeMovie p obj =
     \<lparr>title = Some (nullish_or
                (falsy_or (falsy_or (obj_title obj) (obj_Title obj)) (Some (js ''Untitled'')))
                []),
      pacing_style = Some (nullish_or (obj_pacing_style obj) []),
      energy_level = Some (nullish_or (obj_energy_level obj) []),
      visual_aesthetic = Some (nullish_or (obj_visual_aesthetic obj) []),
      target_audience = Some (nullish_or (obj_target_audience obj) []),
      narrative_structure = Some (nullish_or (obj_narrative_structure obj) []),
      profile_text = Some (nullish_or (obj_profile_text obj) []),
      emotional_tone = Some (not_none
        [formatEmotionalTone p (obj_primary_emotional_tone obj),
         formatEmotionalTone p (obj_secondary_emotional_tone obj)]),
      themes = Some (not_none
        [formatTheme p (obj_primary_theme obj), formatTheme p (obj_secondary_theme obj)]),
      similar_films = Some (toArray (obj_similar_films obj)),
      cultural_context = Some (toArray (obj_cultural_context obj)),
      discussion_topics = Some (toArray (obj_discussion_topics obj))\<rparr>"

text \<open>
  \<^verbatim>\<open>
  function mergeMovies(a, b) {
    const union = (arr1, arr2) => {
      const s = new Set([...(arr1 || []), ...(arr2 || [])].filter(Boolean).map(x => String(x)));
      return [...s];
    };
    const pref = (x, y) => {
      const sx = String(x ?? '').trim();
      const sy = String(y ?? '').trim();
      if (!sx) return sy;
      if (!sy) return sx;
      return sy.length > sx.length ? sy : sx;
    };
    return {
      title: pref(a.title, b.title),
      emotional_tone: union(a.emotional_tone, b.emotional_tone),
      themes: union(a.themes, b.themes),
      pacing_style: pref(a.pacing_style, b.pacing_style),
      ...
    };
  }
  \<close>
\<close>

text \<open>The local functions \<open>union\<close> and \<open>pref\<close> of mergeMovies.\<close>

definition union_arrays :: "jsstring list option \<Rightarrow> jsstring list option \<Rightarrow> jsstring list" where
  "union_arrays arr1 arr2 = uniq (filter (\<lambda>s. s \<noteq> []) (elements arr1 @ elements arr2))"

definition pref :: "jsstring option \<Rightarrow> jsstring option \<Rightarrow> jsstring" where
  "pref x y =
     (let sx = trim (nullish_or x []); sy = trim (nullish_or y [])
      in if sx = [] then sy
         else if sy = [] then sx
         else if length sy > length sx then sy else sx)"

definition mergeMovies :: "movie \<Rightarrow> movie \<Rightarrow> movie" where
  "mergeMovies a b =
     \<lparr>title = Some (pref (title a) (title b)),
      pacing_style = Some (pref (pacing_style a) (pacing_style b)),
      energy_level = Some (pref (energy_level a) (energy_level b)),
      visual_aesthetic = Some (pref (visual_aesthetic a) (visual_aesthetic b)),
      target_audience = Some (pref (target_audience a) (target_audience b)),
      narrative_structure = Some (pref (narrative_structure a) (narrative_structure b)),
      profile_text = Some (pref (profile_text a) (profile_text b)),
      emotional_tone = Some (union_arrays (emotional_tone a) (emotional_tone b)),
      themes = Some (union_arrays (themes a) (themes b)),
      similar_films = Some (union_arrays (similar_films a) (similar_films b)),
      cultural_context = Some (union_arrays (cultural_context a) (cultural_context b)),
      discussion_topics = Some (union_arrays (discussion_topics a) (discussion_topics b))\<rparr>"

text \<open>
  The merging loop of loadAllSources over the objects of a source file:
  \<^verbatim>\<open>
  const merged = new Map(); // key: normalized title -> movie object
  for (const obj of Object.values(raw)) {
    const m = normalizeMovie(obj);
    const key = makeKey(m.title);
    if (!m.title || m.title.trim() === '' || m.title === 'Untitled') { continue; }
    if (!merged.has(key)) {
      merged.set(key, m);
    } else {
      merged.set(key, mergeMovies(merged.get(key), m));
    }
  }
  state.data = Array.from(merged.values()).sort((a, b) => a.title.localeCompare(b.title));
  \<close>
  A \<open>Map\<close> is the list of its entries in insertion order; \<open>set\<close> on a key that is
  present replaces the value where it stands. The final sort by \<open>localeCompare\<close> (and
  the shuffle of the randomize button) only reorder the merged movies: the catalog is a
  list of movies of \<open>merged\<close>.
\<close>

fun map_set :: "'k \<Rightarrow> 'v \<Rightarrow> ('k \<times> 'v) list \<Rightarrow> ('k \<times> 'v) list" where
  "map_set k v [] = [(k, v)]"
| "map_set k v ((k', v') # entries) =
     (if k' = k then (k, v) # entries else (k', v') # map_set k v entries)"

definition invalid_title :: "movie \<Rightarrow> bool" where
  "invalid_title m =
     (\<not> truthy (title m) \<or> trim (nullish_or (title m) []) = []
      \<or> title m = Some (js ''Untitled''))"

fun merge_objects :: "platform \<Rightarrow> raw_movie list \<Rightarrow> (jsstring \<times> movie) list \<Rightarrow> (jsstring \<times> movie) list" where
  "merge_objects p [] merged = merged"
| "merge_objects p (obj # objs) merged =
     (let m = normalizeMovie p obj; key = makeKey p (title m)
      in if invalid_title m then merge_objects p objs merged
         else (case map_of merged key of
                 None \<Rightarrow> merge_objects p objs (map_set key m merged)
               | Some old \<Rightarrow> merge_objects p objs (map_set key (mergeMovies old m) merged)))"

definition loaded_movies :: "platform \<Rightarrow> raw_movie list \<Rightarrow> movie list" where
  "loaded_movies p objs = map snd (merge_objects p objs [])"

section \<open>Rendering: render, renderLocal, renderUsingApi\<close>

text \<open>
  \<open>Math.ceil(a / b)\<close> for integers and \<open>b\<close> other than zero (for \<open>b = 0\<close> the
  language gives Infinity or NaN, which is not modelled; pageSize is 24 in the code and
  is never assigned).
\<close>

definition ceil_div :: "int \<Rightarrow> int \<Rightarrow> int" where
  "ceil_div a b = - ((- a) div b)"

text \<open>
  \<open>xs.slice(start, end)\<close>: a negative index counts from the end, every index is
  clamped to the array, and an empty range gives the empty array.
\<close>

definition slice_index :: "int \<Rightarrow> int \<Rightarrow> int" where
  "slice_index len i = (if i < 0 then max (len + i) 0 else min i len)"

definition js_slice :: "'a list \<Rightarrow> int \<Rightarrow> int \<Rightarrow> 'a list" where
  "js_slice xs start end =
     (let len = int (length xs); k = slice_index len start; final = slice_index len end
      in take (nat (final - k)) (drop (nat k) xs))"

text \<open>
  \<^verbatim>\<open>
  function renderLocal() {
    const filtered = applyFilters(state.data);
    const total = filtered.length;
    // Pagination
    const pages = Math.max(1, Math.ceil(total / state.pageSize));
    if (state.page > pages) state.page = pages;
    const start = (state.page - 1) * state.pageSize;
    const slice = filtered.slice(start, start + state.pageSize);
    ...
    // Cards
    els.cards.innerHTML = '';
    for (const movie of slice) {
      els.cards.appendChild(renderCard(movie));
    }
    ...
  }
  \<close>
  The result of a rendering is the new page state and the movies whose cards are on the
  page, in their order. The statistics line, the carousels and the pagination buttons
  are not modelled.
\<close>

definition renderLocal :: "platform \<Rightarrow> state \<Rightarrow> error + state \<times> movie list" where
  "renderLocal p st =
     (case applyFilters p st (data st) of
        Inl e \<Rightarrow> Inl e
      | Inr filtered \<Rightarrow>
          (let total = int (length filtered);
               pages = max 1 (ceil_div total (pageSize st));
               st' = (if page st > pages then st\<lparr>page := pages\<rparr> else st);
               start = (page st' - 1) * pageSize st'
           in Inr (st', js_slice filtered start (start + pageSize st'))))"

text \<open>
  The request of renderUsingApi,
  \<^verbatim>\<open>
  const url = `${base}/search?q=${encodeURIComponent(state.search)}&limit=${state.pageSize}&mode=hybrid`;
  const res = await fetch(url, { cache: 'no-store' });
  \<close>
  is modelled by its parts: the base address and the three query parameters, of which
  the address is the textual form. \<open>encodeURIComponent\<close> raises a URIError when the
  string has a surrogate code unit that is not part of a pair; then no request is made.
\<close>

record search_request =
  req_base :: jsstring
  req_q :: jsstring
  req_limit :: int
  req_mode :: jsstring

definition high_surrogate :: "code_unit \<Rightarrow> bool" where
  "high_surrogate c = (0xD800 \<le> c \<and> c \<le> 0xDBFF)"

definition low_surrogate :: "code_unit \<Rightarrow> bool" where
  "low_surrogate c = (0xDC00 \<le> c \<and> c \<le> 0xDFFF)"

fun well_paired :: "jsstring \<Rightarrow> bool" where
  "well_paired [] = True"
| "well_paired [c] = (\<not> high_surrogate c \<and> \<not> low_surrogate c)"
| "well_paired (c # d # s) =
     (if high_surrogate c then low_surrogate d \<and> well_paired s
      else \<not> low_surrogate c \<and> well_paired (d # s))"

definition search_params :: "jsstring \<Rightarrow> state \<Rightarrow> search_request" where
  "search_params base st =
     \<lparr>req_base = base, req_q = search st, req_limit = pageSize st,
      req_mode = js ''hybrid''\<rparr>"

definition search_url :: "jsstring \<Rightarrow> state \<Rightarrow> error + search_request" where
  "search_url base st =
     (if well_paired (search st) then Inr (search_params base st) else Inl URIError)"

text \<open>
  What the backend does with a request is not part of the page: the \<open>fetch\<close> can be
  rejected (no connection), the status can be other than ok, the body can fail to parse
  as JSON, the parsed value can be unusable (\<open>results\<close> is no array, or an element is
  no object, so that reading it raises a TypeError), or it holds a list of results. Of a
  result the model keeps the title and the badges; the explanation texts and ranks it
  may carry only fill the explanation line of a card.
\<close>

record api_result =
  r_title :: "jsstring option"
  r_badges :: "jsstring list"

datatype api_reply =
  Rejected | Status_not_ok | Invalid_json | Unusable | Results "api_result list"

text \<open>The browser around the page: the API base field, the stored API base, the backend.\<close>

record browser =
  apiBaseInput :: "jsstring option"
  storedApiBase :: "jsstring option"
  backend :: "search_request \<Rightarrow> api_reply"

text \<open>
  \<^verbatim>\<open>
  const byKey = new Map(state.data.map(m => [makeKey(m.title), m]));
  const movies = results.map(r => {
    const localKey = makeKey(r.title);
    const m = byKey.get(localKey) || normalizeMovie({ title: r.title });
    const clone = { ...m };
    const badges = (r.badges || []).map(x => String(x));
    ...
    if (Array.isArray(clone.themes)) {
      clone.themes = [...new Set([...(badges), ...clone.themes])];
    }
    return clone;
  });
  \<close>
\<close>

definition byKey :: "platform \<Rightarrow> movie list \<Rightarrow> (jsstring \<times> movie) list" where
  "byKey p movies = foldl (\<lambda>entries m. map_set (makeKey p (title m)) m entries) [] movies"

definition title_only :: "jsstring option \<Rightarrow> raw_movie" where
  "title_only t =
     \<lparr>obj_title = t, obj_Title = None, obj_primary_emotional_tone = None,
      obj_secondary_emotional_tone = None, obj_primary_theme = None,
      obj_secondary_theme = None, obj_pacing_style = None, obj_visual_aesthetic = None,
      obj_target_audience = None, obj_similar_films = Missing,
      obj_cultural_context = Missing, obj_narrative_structure = None,
      obj_energy_level = None, obj_discussion_topics = Missing,
      obj_profile_text = None\<rparr>"

definition api_card :: "platform \<Rightarrow> state \<Rightarrow> api_result \<Rightarrow> movie" where
  "api_card p st r =
     (let m = (case map_of (byKey p (data st)) (makeKey p (r_title r)) of
                 Some local \<Rightarrow> local
               | None \<Rightarrow> normalizeMovie p (title_only (r_title r)))
      in case themes m of
           None \<Rightarrow> m
         | Some ths \<Rightarrow> m\<lparr>themes := Some (uniq (r_badges r @ ths))\<rparr>)"

text \<open>
  The body of the \<open>try\<close> block of renderUsingApi: the address, the fetch, the status
  check, the parsing and the cards, each of which can throw.
  \<^verbatim>\<open>
  const res = await fetch(url, { cache: 'no-store' });
  if (!res.ok) throw new Error(`${res.status} ${res.statusText}`);
  const data = await res.json();
  const results = data?.results || [];
  ...
  els.cards.innerHTML = '';
  for (const m of movies) {
    els.cards.appendChild(renderCard(m));
  }
  // No pagination for API mode (server already limited)
  \<close>
\<close>

definition api_cards :: "platform \<Rightarrow> jsstring \<Rightarrow> browser \<Rightarrow> state \<Rightarrow> error + movie list" where
  "api_cards p base env st =
     (case search_url base st of
        Inl e \<Rightarrow> Inl e
      | Inr request \<Rightarrow>
          (case backend env request of
             Rejected \<Rightarrow> Inl TypeError
           | Status_not_ok \<Rightarrow> Inl HttpError
           | Invalid_json \<Rightarrow> Inl SyntaxError
           | Unusable \<Rightarrow> Inl TypeError
           | Results results \<Rightarrow> Inr (map (api_card p st) results)))"

text \<open>
  \<^verbatim>\<open>
  async function renderUsingApi(base) {
    try {
      ...
    } catch (e) {
      if (els.apiStatus) els.apiStatus.textContent = `Search failed, falling back to local: ${e.message}`;
      // Fallback to local render
      renderLocal();
    }
  }
  \<close>
\<close>

definition renderUsingApi :: "platform \<Rightarrow> jsstring \<Rightarrow> browser \<Rightarrow> state \<Rightarrow> error + state \<times> movie list" where
  "renderUsingApi p base env st =
     (case api_cards p base env st of
        Inl e \<Rightarrow> renderLocal p st
      | Inr cards \<Rightarrow> Inr (st, cards))"

text \<open>
  \<^verbatim>\<open>
  function normalizeBase(val) {
    let v = (val || '').trim();
    if (!v) return '';
    if (!/^https?:\/\//i.test(v)) {
      if (v.startsWith('//')) v = 'http:' + v; else v = 'http://' + v;
    }
    v = v.replace(/\/$/, '');
    return v;
  }
  \<close>
  The \<open>i\<close> flag makes the letters of the pattern match in either case.
\<close>

definition ascii_lower :: "code_unit \<Rightarrow> code_unit" where
  "ascii_lower c = (if 0x41 \<le> c \<and> c \<le> 0x5A then c + 0x20 else c)"

definition has_scheme :: "jsstring \<Rightarrow> bool" where
  "has_scheme v =
     (startsWith (map ascii_lower v) (js ''http://'')
      \<or> startsWith (map ascii_lower v) (js ''https://''))"

definition drop_final_slash :: "jsstring \<Rightarrow> jsstring" where
  "drop_final_slash v = (if v \<noteq> [] \<and> last v = 0x2F then butlast v else v)"

definition normalizeBase :: "jsstring \<Rightarrow> jsstring" where
  "normalizeBase val =
     (let v = trim val
      in if v = [] then []
         else drop_final_slash
           (if has_scheme v then v
            else if startsWith v (js ''//'') then js ''http:'' @ v
            else js ''http://'' @ v))"

text \<open>
  \<^verbatim>\<open>
  async function render() {
    const rawBase = (state.apiBase || els.apiBaseInput?.value || localStorage.getItem('apiBase') || '');
    const base = normalizeBase(rawBase);
    const useApi = !!base && !!state.search;
    if (useApi) {
      await renderUsingApi(base);
    } else {
      renderLocal();
    }
    ...
  }
  \<close>
\<close>

definition rawBase :: "browser \<Rightarrow> state \<Rightarrow> jsstring" where
  "rawBase env st =
     nullish_or
       (falsy_or (falsy_or (falsy_or (Some (apiBase st)) (apiBaseInput env))
          (storedApiBase env)) (Some []))
       []"

definition useApi :: "browser \<Rightarrow> state \<Rightarrow> bool" where
  "useApi env st = (normalizeBase (rawBase env st) \<noteq> [] \<and> search st \<noteq> [])"

definition render :: "platform \<Rightarrow> browser \<Rightarrow> state \<Rightarrow> error + state \<times> movie list" where
  "render p env st =
     (if useApi env st then renderUsingApi p (normalizeBase (rawBase env st)) env st
      else renderLocal p st)"

text \<open>A reply that makes the \<open>try\<close> block of renderUsingApi throw.\<close>

fun failed :: "api_reply \<Rightarrow> bool" where
  "failed (Results results) = False"
| "failed reply = True"


section \<open>Example data\<close>

text \<open>
  A platform for the concrete instances below, all of whose strings are made of Basic
  Latin and Latin-1 characters and the trade mark sign. It has the case mappings and
  the compatibility decompositions of the Unicode Character Database for U+0000 to
  U+00FF and for U+2122, and leaves every other code unit as it is. Lowercase: \<open>A\<close>
  to \<open>Z\<close> and U+00C0 to U+00DE (without the multiplication sign U+00D7) map 0x20
  above. Uppercase: the reverse, and U+00DF (sharp s) becomes \<open>SS\<close>, U+00FF becomes
  U+0178, the micro sign U+00B5 becomes U+039C. The trade mark sign has no case mapping
  and decomposes to \<open>TM\<close>. No instance needs the reordering of combining marks.
  Beyond that range it is not the platform of a browser; it only supplies the
  instances, and no theorem about every platform depends on it.
\<close>

definition has_lowercase :: "code_unit \<Rightarrow> bool" where
  "has_lowercase c =
     ((0x41 \<le> c \<and> c \<le> 0x5A) \<or> (0xC0 \<le> c \<and> c \<le> 0xDE \<and> c \<noteq> 0xD7))"

definition lower_unit :: "code_unit \<Rightarrow> code_unit" where
  "lower_unit c = (if has_lowercase c then c + 0x20 else c)"

definition upper_unit :: "code_unit \<Rightarrow> jsstring" where
  "upper_unit c =
     (if (0x61 \<le> c \<and> c \<le> 0x7A) \<or> (0xE0 \<le> c \<and> c \<le> 0xFE \<and> c \<noteq> 0xF7)
      then [c - 0x20]
      else if c = 0xDF then [0x53, 0x53]
      else if c = 0xFF then [0x178]
      else if c = 0xB5 then [0x39C]
      else [c])"

definition nfkd_table :: "(code_unit \<times> jsstring) list" where
  "nfkd_table =
     [(0xA0, [0x20]), (0xA8, [0x20, 0x308]), (0xAA, [0x61]), (0xAF, [0x20, 0x304]),
      (0xB2, [0x32]), (0xB3, [0x33]), (0xB4, [0x20, 0x301]), (0xB5, [0x3BC]),
      (0xB8, [0x20, 0x327]), (0xB9, [0x31]), (0xBA, [0x6F]),
      (0xBC, [0x31, 0x2044, 0x34]), (0xBD, [0x31, 0x2044, 0x32]),
      (0xBE, [0x33, 0x2044, 0x34]),
      (0xC0, [0x41, 0x300]), (0xC1, [0x41, 0x301]), (0xC2, [0x41, 0x302]),
      (0xC3, [0x41, 0x303]), (0xC4, [0x41, 0x308]), (0xC5, [0x41, 0x30A]),
      (0xC7, [0x43, 0x327]),
      (0xC8, [0x45, 0x300]), (0xC9, [0x45, 0x301]), (0xCA, [0x45, 0x302]),
      (0xCB, [0x45, 0x308]),
      (0xCC, [0x49, 0x300]), (0xCD, [0x49, 0x301]), (0xCE, [0x49, 0x302]),
      (0xCF, [0x49, 0x308]),
      (0xD1, [0x4E, 0x303]),
      (0xD2, [0x4F, 0x300]), (0xD3, [0x4F, 0x301]), (0xD4, [0x4F, 0x302]),
      (0xD5, [0x4F, 0x303]), (0xD6, [0x4F, 0x308]),
      (0xD9, [0x55, 0x300]), (0xDA, [0x55, 0x301]), (0xDB, [0x55, 0x302]),
      (0xDC, [0x55, 0x308]), (0xDD, [0x59, 0x301]),
      (0xE0, [0x61, 0x300]), (0xE1, [0x61, 0x301]), (0xE2, [0x61, 0x302]),
      (0xE3, [0x61, 0x303]), (0xE4, [0x61, 0x308]), (0xE5, [0x61, 0x30A]),
      (0xE7, [0x63, 0x327]),
      (0xE8, [0x65, 0x300]), (0xE9, [0x65, 0x301]), (0xEA, [0x65, 0x302]),
      (0xEB, [0x65, 0x308]),
      (0xEC, [0x69, 0x300]), (0xED, [0x69, 0x301]), (0xEE, [0x69, 0x302]),
      (0xEF, [0x69, 0x308]),
      (0xF1, [0x6E, 0x303]),
      (0xF2, [0x6F, 0x300]), (0xF3, [0x6F, 0x301]), (0xF4, [0x6F, 0x302]),
      (0xF5, [0x6F, 0x303]), (0xF6, [0x6F, 0x308]),
      (0xF9, [0x75, 0x300]), (0xFA, [0x75, 0x301]), (0xFB, [0x75, 0x302]),
      (0xFC, [0x75, 0x308]), (0xFD, [0x79, 0x301]), (0xFF, [0x79, 0x308]),
      (0x2122, [0x54, 0x4D])]"

definition nfkd_unit :: "code_unit \<Rightarrow> jsstring" where
  "nfkd_unit c = (case map_of nfkd_table c of None \<Rightarrow> [c] | Some d \<Rightarrow> d)"

definition latin1 :: platform where
  "latin1 =
     \<lparr>toLowerCase = map lower_unit,
      toUpperCase = (\<lambda>s. concat (map upper_unit s)),
      normalize_NFKD = (\<lambda>s. concat (map nfkd_unit s))\<rparr>"


text \<open>Two movies as normalizeMovie builds them, for the concrete instances below.\<close>

definition alien :: movie where
  "alien =
     \<lparr>title = Some (js ''Alien''), pacing_style = Some (js ''slow burn''),
      energy_level = Some [], visual_aesthetic = Some [], target_audience = Some [],
      narrative_structure = Some [], profile_text = Some (js ''A crew meets a stowaway.''),
      emotional_tone = Some [js ''Tense'', js ''Dark''],
      themes = Some [js ''Survival''], similar_films = Some [js ''The Thing''],
      cultural_context = Some [], discussion_topics = Some []\<rparr>"

definition amelie :: movie where
  "amelie =
     \<lparr>title = Some (js ''Amelie''), pacing_style = Some [],
      energy_level = Some [], visual_aesthetic = Some [], target_audience = Some [],
      narrative_structure = Some [], profile_text = Some [],
      emotional_tone = Some [js ''Whimsical''],
      themes = Some [js ''Love''], similar_films = Some [],
      cultural_context = Some [], discussion_topics = Some []\<rparr>"

text \<open>
  A profile object that has a title and nothing else, and four browsers whose API base
  field is filled in: one whose backend cannot be reached, one whose backend answers
  the query "stowaway" with a server error and every other query with no results, one
  whose backend returns two results and one whose backend returns three.
\<close>

definition bare_object :: raw_movie where
  "bare_object = title_only (Some (js ''Up''))"

definition offline :: browser where
  "offline =
     \<lparr>apiBaseInput = Some (js ''localhost:8003/''), storedApiBase = None,
      backend = (\<lambda>request. Rejected)\<rparr>"


definition flaky :: browser where
  "flaky =
     \<lparr>apiBaseInput = Some (js ''localhost:8003/''), storedApiBase = None,
      backend = (\<lambda>request. if req_q request = js ''stowaway'' then Status_not_ok
                           else Results [])\<rparr>"





section \<open>The search backend: rank fusion\<close>

text \<open>
  The \<open>/search\<close> endpoint that renderUsingApi calls is served by the API server of
  the repository (\<open>api.py\<close>), of which the page is only a caller. Its fusion and
  filtering steps are modelled from the specification of the search subsystem.
\<close>

text \<open>
  Modelled from the spec: the rank of a candidate in a source list of the Fusion and Rank
  Aggregator (section 4.5), whose code is missing. Ranks count from 1 (the first movie
  is ranked #1); a candidate that is not in the list has no rank.
\<close>

fun rank_from :: "nat \<Rightarrow> 'a list \<Rightarrow> 'a \<Rightarrow> nat option" where
  "rank_from n [] x = None"
| "rank_from n (y # ys) x = (if x = y then Some n else rank_from (Suc n) ys x)"

text \<open>
  Modelled from the spec: the rank of a candidate in a whole source list of the missing
  \<open>fuse\<close>, counted from 1.
\<close>

definition rank_in :: "'a list \<Rightarrow> 'a \<Rightarrow> nat option" where
  "rank_in xs x = rank_from 1 xs x"

text \<open>
  Modelled from the spec: the fused score of the missing \<open>fuse\<close>: "each candidate's
  fused score = sum over each source list in which it appears of 1 / (k +
  rankInThatList)"; "absence from a list contributes zero, not a penalty".
\<close>

definition reciprocal_rank :: "real \<Rightarrow> nat option \<Rightarrow> real" where
  "reciprocal_rank k r = (case r of None \<Rightarrow> 0 | Some n \<Rightarrow> 1 / (k + real n))"

text \<open>
  Modelled from the spec: the fused score of a candidate of the missing \<open>fuse\<close>, the
  sum of its reciprocal ranks in the keyword list and in the semantic list.
\<close>

definition fused_score :: "real \<Rightarrow> 'a list \<Rightarrow> 'a list \<Rightarrow> 'a \<Rightarrow> real" where
  "fused_score k keywordRanked semanticRanked x =
     reciprocal_rank k (rank_in keywordRanked x)
     + reciprocal_rank k (rank_in semanticRanked x)"

text \<open>
  Modelled from the spec: the missing \<open>fuse(keywordRanked, semanticRanked, k)\<close>: the
  candidates of both lists, each once; "final ordering: descending fused score; ties
  broken by movieId". The candidates are sorted by identifier and then, keeping that
  order among equal scores, by descending score. An identifier is of any linearly
  ordered type; the identifiers of the spec are strings, in lexicographic order.
\<close>

definition fuse :: "'a::linorder list \<Rightarrow> 'a list \<Rightarrow> real \<Rightarrow> 'a list" where
  "fuse keywordRanked semanticRanked k =
     sort_key (\<lambda>x. - fused_score k keywordRanked semanticRanked x)
       (sort (remdups (keywordRanked @ semanticRanked)))"

text \<open>
  Modelled from the spec: "ranked higher" for the ranks of the missing \<open>fuse\<close>: a rank
  is at least as high as another when it is numerically not larger, or when the other
  is no rank at all.
\<close>

fun at_least_as_high :: "nat option \<Rightarrow> nat option \<Rightarrow> bool" where
  "at_least_as_high r None = True"
| "at_least_as_high None (Some n) = False"
| "at_least_as_high (Some m) (Some n) = (m \<le> n)"

section \<open>The search backend: intent filters and the orchestrator\<close>

text \<open>
  Modelled from the spec: the MovieRecord of the backend's catalog (section 3), whose
  code is missing: identifier, title, plot summary, genres, tags, optional runtime in
  minutes, optional release year, people.
\<close>

record movie_record =
  movieId :: string
  recordTitle :: string
  plotSummary :: string
  genres :: "string list"
  tags :: "string list"
  runtimeMinutes :: "nat option"
  releaseYear :: "int option"
  people :: "string list"

text \<open>
  Modelled from the spec: the ParsedIntent of a query (section 3), whose code is
  missing: "{genres, excludedGenres, runtimeMax, yearRange, themes}". The included
  genres and the themes are named \<open>intentGenres\<close> and \<open>intentThemes\<close> here.
\<close>

record parsed_intent =
  intentGenres :: "string list"
  excludedGenres :: "string list"
  runtimeMax :: "nat option"
  yearRange :: "(int \<times> int) option"
  intentThemes :: "string list"

text \<open>
  Modelled from the spec: the hard filters of step 4 of the missing Search Orchestrator
  (section 4.7): "apply hard filters from ParsedIntent (genre inclusion/exclusion,
  runtime bound, year range)"; filters are "additive constraints". Whether a movie
  without a runtime or a year passes a bound is left open by the spec ("policy is
  documented/tested either way") and is the parameter \<open>keepUnknown\<close>.
\<close>

definition within_runtime :: "bool \<Rightarrow> nat option \<Rightarrow> nat option \<Rightarrow> bool" where
  "within_runtime keepUnknown bound runtime =
     (case bound of None \<Rightarrow> True
      | Some r \<Rightarrow> (case runtime of None \<Rightarrow> keepUnknown | Some n \<Rightarrow> n \<le> r))"

text \<open>
  Modelled from the spec: the year range of the hard filters of the missing
  orchestrator, with the same policy for a movie without a release year.
\<close>

definition within_years :: "bool \<Rightarrow> (int \<times> int) option \<Rightarrow> int option \<Rightarrow> bool" where
  "within_years keepUnknown years year =
     (case years of None \<Rightarrow> True
      | Some (lo, hi) \<Rightarrow> (case year of None \<Rightarrow> keepUnknown | Some y \<Rightarrow> lo \<le> y \<and> y \<le> hi))"

text \<open>
  Modelled from the spec: the hard filters of the missing orchestrator together: every
  included genre is a genre of the movie, no excluded genre is, and the runtime and the
  year are within their bounds.
\<close>

definition passes_filters :: "bool \<Rightarrow> parsed_intent \<Rightarrow> movie_record \<Rightarrow> bool" where
  "passes_filters keepUnknown intent m =
     (list_all (\<lambda>g. g \<in> set (genres m)) (intentGenres intent)
      \<and> list_all (\<lambda>g. g \<notin> set (genres m)) (excludedGenres intent)
      \<and> within_runtime keepUnknown (runtimeMax intent) (runtimeMinutes m)
      \<and> within_years keepUnknown (yearRange intent) (releaseYear m))"

text \<open>
  Modelled from the spec: the collaborators and knobs of the missing orchestrator, which
  the spec describes by their contracts only: the intent parser (section 4.3), the
  keyword search (4.2) and the optional semantic search (4.4), each returning ranked
  movie identifiers, the optional re-ranker's score (4.6), the fusion constant \<open>k\<close>, the
  re-ranking window \<open>K\<close> and the policy for unknown runtimes and years.
\<close>

record orchestrator =
  parseIntent :: "string \<Rightarrow> parsed_intent"
  keywordSearch :: "movie_record list \<Rightarrow> string \<Rightarrow> string list"
  semanticSearch :: "(movie_record list \<Rightarrow> string \<Rightarrow> string list) option"
  rerankScore :: "(string \<Rightarrow> movie_record \<Rightarrow> real) option"
  fusionConstant :: real
  rerankWindow :: nat
  keepUnknown :: bool

text \<open>
  Modelled from the spec: the missing re-ranker (section 4.6): it "re-scores each
  candidate" of the window and orders them by the new score; "if disabled, the
  orchestrator passes fused order through unchanged".
\<close>

definition rerank :: "(string \<Rightarrow> movie_record \<Rightarrow> real) option \<Rightarrow> string \<Rightarrow> movie_record list \<Rightarrow> movie_record list" where
  "rerank scorer query candidates =
     (case scorer of None \<Rightarrow> candidates
      | Some score \<Rightarrow> sort_key (\<lambda>m. - score query m) candidates)"

text \<open>
  Modelled from the spec: the limit of the missing orchestrator: "invalid limit (<= 0)
  treated as a fixed default (e.g., 20), not an error".
\<close>

definition effective_limit :: "int \<Rightarrow> nat" where
  "effective_limit limit = (if limit \<le> 0 then 20 else nat limit)"

text \<open>
  Modelled from the spec: the record of the catalog that a ranked identifier of the
  missing orchestrator stands for.
\<close>

definition find_record :: "movie_record list \<Rightarrow> string \<Rightarrow> movie_record option" where
  "find_record catalog i = find (\<lambda>m. movieId m = i) catalog"

text \<open>
  Modelled from the spec: the missing \<open>search(catalog, query, filters?, limit)\<close> of the
  Search Orchestrator (section 4.7), steps 1 to 6: parse the intent; run the keyword
  search and, if enabled, the semantic search; fuse the ranked lists; apply the hard
  filters, "strictly after fusion"; re-rank the top window; truncate to the limit. The
  snippets and badges of step 7 are not modelled.
\<close>

definition backend_search :: "orchestrator \<Rightarrow> movie_record list \<Rightarrow> string \<Rightarrow> int \<Rightarrow> movie_record list" where
  "backend_search parts catalog query limit =
     (let intent = parseIntent parts query;
          keywordRanked = keywordSearch parts catalog query;
          semanticRanked = (case semanticSearch parts of None \<Rightarrow> []
                            | Some semantic \<Rightarrow> semantic catalog query);
          fused = fuse keywordRanked semanticRanked (fusionConstant parts);
          candidates = List.map_filter (find_record catalog) fused;
          filtered = filter (passes_filters (keepUnknown parts) intent) candidates;
          reranked = rerank (rerankScore parts) query (take (rerankWindow parts) filtered)
      in take (effective_limit limit) reranked)"

text \<open>
  Modelled from the spec: the genre rules of the missing Intent Parser (section 4.3), on
  the words of a query: "no X" and "not X" exclude the genre of the word X; a named
  genre word includes its genre "via a lookup table"; "exclusion patterns evaluated
  before inclusion patterns so 'no horror' does not also add 'horror' to included
  genres". The lookup table is a parameter. The rules for runtimes, years and themes are
  not modelled: the intent this parser returns has none.
\<close>

fun excluded_words :: "string list \<Rightarrow> string list" where
  "excluded_words (w # x # ws) =
     (if w = ''no'' \<or> w = ''not'' then x # excluded_words ws else excluded_words (x # ws))"
| "excluded_words ws = []"

text \<open>
  Modelled from the spec: the words of a query that the exclusion patterns of the
  missing Intent Parser leave for the inclusion patterns.
\<close>

fun other_words :: "string list \<Rightarrow> string list" where
  "other_words (w # x # ws) =
     (if w = ''no'' \<or> w = ''not'' then other_words ws else w # other_words (x # ws))"
| "other_words ws = ws"

text \<open>
  Modelled from the spec: the lookup of genre words of the missing Intent Parser in its
  table.
\<close>

definition genres_of :: "(string \<times> string) list \<Rightarrow> string list \<Rightarrow> string list" where
  "genres_of table ws = List.map_filter (map_of table) ws"

text \<open>
  Modelled from the spec: the ParsedIntent that the genre rules of the missing Intent
  Parser give for the words of a query.
\<close>

definition parse_genres :: "(string \<times> string) list \<Rightarrow> string list \<Rightarrow> parsed_intent" where
  "parse_genres table ws =
     \<lparr>intentGenres = genres_of table (other_words ws),
      excludedGenres = genres_of table (excluded_words ws),
      runtimeMax = None, yearRange = None, intentThemes = []\<rparr>"

section \<open>Example data for the backend\<close>

text \<open>
  A catalog of three records and a backend without semantic search and re-ranker, whose
  keyword search returns the three identifiers in a fixed order and whose parser splits
  the query at spaces and commas and applies the genre rules to the words.
\<close>

fun split_words :: "string \<Rightarrow> string list" where
  "split_words [] = [[]]"
| "split_words (c # cs) =
     (if c = CHR '' '' \<or> c = CHR '','' then [] # split_words cs
      else (case split_words cs of [] \<Rightarrow> [[c]] | w # ws \<Rightarrow> (c # w) # ws))"

definition query_words :: "string \<Rightarrow> string list" where
  "query_words q = filter (\<lambda>w. w \<noteq> []) (split_words q)"

definition genre_table :: "(string \<times> string) list" where
  "genre_table = [(''sci-fi'', ''Sci-Fi''), (''horror'', ''Horror''), (''comedy'', ''Comedy'')]"

definition nostromo :: movie_record where
  "nostromo =
     \<lparr>movieId = ''m1'', recordTitle = ''Alien'', plotSummary = '''',
      genres = [''Sci-Fi'', ''Horror''], tags = [], runtimeMinutes = Some 117,
      releaseYear = Some 1979, people = []\<rparr>"

definition arrival :: movie_record where
  "arrival =
     \<lparr>movieId = ''m2'', recordTitle = ''Arrival'', plotSummary = '''',
      genres = [''Sci-Fi''], tags = [], runtimeMinutes = Some 116,
      releaseYear = Some 2016, people = []\<rparr>"

definition scream :: movie_record where
  "scream =
     \<lparr>movieId = ''m3'', recordTitle = ''Scream'', plotSummary = '''',
      genres = [''Horror''], tags = [], runtimeMinutes = None,
      releaseYear = Some 1996, people = []\<rparr>"

definition keyword_only :: orchestrator where
  "keyword_only =
     \<lparr>parseIntent = (\<lambda>q. parse_genres genre_table (query_words q)),
      keywordSearch = (\<lambda>catalog q. [''m1'', ''m2'', ''m3'']),
      semanticSearch = None, rerankScore = None, fusionConstant = 60,
      rerankWindow = 50, keepUnknown = True\<rparr>"

section \<open>Properties of escapeHtml\<close>

lemma escape_callback_spec: "html_special c \<Longrightarrow> escape_callback c = html_entity_spec c"
  by (auto simp: html_special_def escape_callback_def entity_table_def html_entity_spec_def
      or_else_def js_def)

lemma html_entity_spec_other: "\<not> html_special c \<Longrightarrow> html_entity_spec c = [c]"
  by (simp add: html_special_def html_entity_spec_def)

lemma replace_class_escape:
  "replace_class html_special escape_callback s = concat (map html_entity_spec s)"
  by (induction s) (simp_all add: escape_callback_spec html_entity_spec_other)

lemma html_entity_spec_clean:
  "d \<in> set (html_entity_spec c) \<Longrightarrow> d \<noteq> 0x3C \<and> d \<noteq> 0x3E \<and> d \<noteq> 0x22 \<and> d \<noteq> 0x27"
  by (auto simp: html_entity_spec_def js_def split: if_splits)

text \<open>
  C10. For every input (a string, or \<open>null\<close>/\<open>undefined\<close>, which is escaped as the
  empty string), the output of escapeHtml is the input with every \<open>&\<close>, \<open><\<close>, \<open>>\<close>,
  double quote and single quote replaced by its entity, and it contains no \<open><\<close>, \<open>>\<close>,
  double quote or single quote.
\<close>

theorem escapeHtml_no_markup:
  "escapeHtml s = concat (map html_entity_spec (nullish_or s []))
   \<and> 0x3C \<notin> set (escapeHtml s) \<and> 0x3E \<notin> set (escapeHtml s)
   \<and> 0x22 \<notin> set (escapeHtml s) \<and> 0x27 \<notin> set (escapeHtml s)"
proof -
  have eq: "escapeHtml s = concat (map html_entity_spec (nullish_or s []))"
    by (simp add: escapeHtml_def replace_class_escape)
  have clean: "d \<in> set (escapeHtml s) \<Longrightarrow> d \<noteq> 0x3C \<and> d \<noteq> 0x3E \<and> d \<noteq> 0x22 \<and> d \<noteq> 0x27" for d
    unfolding eq using html_entity_spec_clean by auto
  from eq clean show ?thesis by blast
qed

section \<open>Properties of applyFilters\<close>

lemma startsWith_iff: "startsWith s q \<longleftrightarrow> (\<exists>rest. s = q @ rest)"
  by (induction s q rule: startsWith.induct) auto

lemma str_includes_iff: "str_includes s q \<longleftrightarrow> (\<exists>before after. s = before @ q @ after)"
proof (induction s)
  case Nil
  show ?case by (simp add: startsWith_iff)
next
  case (Cons c cs)
  show ?case
  proof
    assume "str_includes (c # cs) q"
    then consider "startsWith (c # cs) q" | "str_includes cs q" by auto
    then show "\<exists>before after. c # cs = before @ q @ after"
    proof cases
      case 1
      then obtain rest where "c # cs = q @ rest" by (auto simp: startsWith_iff)
      then have "c # cs = [] @ q @ rest" by simp
      then show ?thesis by blast
    next
      case 2
      with Cons.IH obtain b a where "cs = b @ q @ a" by auto
      then have "c # cs = (c # b) @ q @ a" by simp
      then show ?thesis by blast
    qed
  next
    assume "\<exists>before after. c # cs = before @ q @ after"
    then obtain b a where eq: "c # cs = b @ q @ a" by auto
    show "str_includes (c # cs) q"
    proof (cases b)
      case Nil
      with eq have "startsWith (c # cs) q" by (auto simp: startsWith_iff)
      then show ?thesis by simp
    next
      case (Cons b0 bs)
      with eq have "cs = bs @ q @ a" by simp
      with Cons.IH have "str_includes cs q" by blast
      then show ?thesis by simp
    qed
  qed
qed

lemma has_all_iff: "has_all ts field \<longleftrightarrow> set ts \<subseteq> set field"
  by (induction ts) auto

lemma hay_search_text: "has_arrays m \<Longrightarrow> hay p m = Inr (search_text p m)"
  by (auto simp: has_arrays_def hay_def hay_elements_def spread_def search_text_def
      elements_def)

lemma filter_step_present:
  "filter_step selected (Some xs) = Inr (set selected \<subseteq> set xs)"
  by (simp add: filter_step_def has_all_iff)

lemma search_step_spec:
  "has_arrays m \<Longrightarrow>
   search_step p q m = Inr (q = [] \<or> (\<exists>before after. search_text p m = before @ q @ after))"
  by (simp add: search_step_def hay_search_text str_includes_iff)

lemma keeps_spec: "has_arrays m \<Longrightarrow> keeps p st m = Inr (matches_spec p st m)"
proof -
  assume h: "has_arrays m"
  then obtain tones ths where f: "emotional_tone m = Some tones" "themes m = Some ths"
    by (auto simp: has_arrays_def)
  show ?thesis
    unfolding keeps_def search_step_spec [OF h] f filter_step_present matches_spec_def
    by (simp add: elements_def split: bool.splits)
qed

lemma array_filter_total:
  "(\<And>x. x \<in> set xs \<Longrightarrow> p x = Inr (q x)) \<Longrightarrow> array_filter p xs = Inr (filter q xs)"
  by (induction xs) simp_all

text \<open>
  C9. On a catalog whose movies have their arrays, applyFilters returns the movies that
  satisfy the claim's condition, in the order of the input: the search string is empty
  or a substring of the lowercased text of the movie, every selected tone is one of the
  movie's emotional tones, and every selected theme is one of its themes.
\<close>

theorem applyFilters_spec:
  assumes "\<forall>m \<in> set arr. has_arrays m"
  shows "applyFilters p st arr = Inr (filter (matches_spec p st) arr)"
  unfolding applyFilters_def using assms by (intro array_filter_total keeps_spec) blast

lemma matches_spec_code:
  "matches_spec p st m \<longleftrightarrow>
     (search st = [] \<or> str_includes (search_text p m) (search st))
     \<and> has_all (filterTones st) (elements (emotional_tone m))
     \<and> has_all (filterThemes st) (elements (themes m))"
  by (simp add: matches_spec_def str_includes_iff has_all_iff)

lemmas example_defs =
  alien_def amelie_def initial_state_def js_def has_arrays_def elements_def

lemmas latin1_defs =
  latin1_def lower_unit_def has_lowercase_def upper_unit_def nfkd_unit_def nfkd_table_def

theorem applyFilters_spec_witness:
  "has_arrays alien \<and> has_arrays amelie
   \<and> applyFilters latin1
        (initial_state\<lparr>search := js ''stowaway'', filterTones := [js ''Dark'']\<rparr>)
        [amelie, alien] = Inr [alien]"
proof -
  let ?st = "initial_state\<lparr>search := js ''stowaway'', filterTones := [js ''Dark'']\<rparr>"
  have arrays: "\<forall>m \<in> set [amelie, alien]. has_arrays m"
    by (simp add: example_defs)
  have "applyFilters latin1 ?st [amelie, alien]
        = Inr (filter (matches_spec latin1 ?st) [amelie, alien])"
    using applyFilters_spec [OF arrays] .
  moreover have "filter (matches_spec latin1 ?st) [amelie, alien] = [alien]"
    by (simp add: matches_spec_code search_text_def latin1_def lower_unit_def
        has_lowercase_def nullish_or_def example_defs)
  ultimately show ?thesis using arrays by simp
qed

lemma filter_step_set:
  assumes "set a = set b"
  shows "filter_step a field = filter_step b field"
proof -
  from assms have "a = [] \<longleftrightarrow> b = []" by (metis set_empty)
  with assms show ?thesis
    by (cases field) (simp_all add: filter_step_def has_all_iff)
qed

text \<open>
  C3. The result of applyFilters is a function of the catalog, the search string and
  the two sets of selected tones and themes: two runs that agree on these return the same
  movies in the same order (or raise the same exception), whatever the order in which
  the filters were selected and whatever the rest of the page state.
\<close>

theorem applyFilters_deterministic:
  assumes "search st = search st'"
    and "set (filterTones st) = set (filterTones st')"
    and "set (filterThemes st) = set (filterThemes st')"
  shows "applyFilters p st arr = applyFilters p st' arr"
proof -
  have "keeps p st = keeps p st'"
    unfolding keeps_def assms(1)
      filter_step_set [OF assms(2)] filter_step_set [OF assms(3)] ..
  then show ?thesis by (simp add: applyFilters_def)
qed

theorem applyFilters_deterministic_witness:
  "applyFilters latin1
     (initial_state\<lparr>filterTones := [js ''Tense'', js ''Dark''], page := 2\<rparr>) [amelie, alien]
   = applyFilters latin1
     (initial_state\<lparr>filterTones := [js ''Dark'', js ''Tense'']\<rparr>) [amelie, alien]"
  by (rule applyFilters_deterministic) (auto simp: initial_state_def)

text \<open>
  C1, as the code has it. With an empty search string the text test is skipped: the
  search is not an error and returns, in the order of the catalog, exactly the movies
  that have every selected tone and every selected theme, which is the whole catalog
  when no filter is selected; and render shows the local result, whatever the backend.
\<close>

theorem applyFilters_empty_query:
  assumes "search st = []" and "\<forall>m \<in> set arr. has_arrays m"
  shows "applyFilters p st arr =
         Inr (filter (\<lambda>m. set (filterTones st) \<subseteq> set (elements (emotional_tone m))
                         \<and> set (filterThemes st) \<subseteq> set (elements (themes m))) arr)
         \<and> render p env st = renderLocal p st"
proof -
  have "keeps p st m = Inr (set (filterTones st) \<subseteq> set (elements (emotional_tone m))
                         \<and> set (filterThemes st) \<subseteq> set (elements (themes m)))"
    if "m \<in> set arr" for m
  proof -
    from that assms(2) have "has_arrays m" by blast
    then show ?thesis by (simp add: keeps_spec matches_spec_def assms(1))
  qed
  then have "applyFilters p st arr =
         Inr (filter (\<lambda>m. set (filterTones st) \<subseteq> set (elements (emotional_tone m))
                         \<and> set (filterThemes st) \<subseteq> set (elements (themes m))) arr)"
    unfolding applyFilters_def by (rule array_filter_total)
  moreover from assms(1) have "render p env st = renderLocal p st"
    by (simp add: render_def useApi_def)
  ultimately show ?thesis by simp
qed

theorem applyFilters_empty_query_witness:
  "search initial_state = [] \<and> has_arrays alien \<and> has_arrays amelie
   \<and> applyFilters latin1 initial_state [amelie, alien] = Inr [amelie, alien]
   \<and> render latin1 offline initial_state = renderLocal latin1 initial_state"
proof -
  have arrays: "\<forall>m \<in> set [amelie, alien]. has_arrays m"
    by (simp add: example_defs)
  have empty: "search initial_state = []" by (simp add: initial_state_def)
  from applyFilters_empty_query [OF empty arrays, of latin1 offline] arrays empty
  show ?thesis by (simp add: initial_state_def)
qed

text \<open>
  The claim as stated fails: the empty query on a catalog of one movie, with no filter
  selected, returns that movie.
\<close>

theorem empty_query_counterexample:
  "search initial_state = [] \<and> applyFilters latin1 initial_state [alien] = Inr [alien]
   \<and> applyFilters latin1 initial_state [alien] \<noteq> Inr []"
  by (simp add: applyFilters_def keeps_def search_step_def filter_step_def
      initial_state_def)

section \<open>Properties of the loaded catalog\<close>


lemma has_arrays_normalizeMovie: "has_arrays (normalizeMovie p obj)"
  by (simp add: has_arrays_def normalizeMovie_def)

lemma has_arrays_mergeMovies: "has_arrays (mergeMovies a b)"
  by (simp add: has_arrays_def mergeMovies_def)

lemma map_set_values: "snd ` set (map_set k v entries) \<subseteq> insert v (snd ` set entries)"
  by (induction k v entries rule: map_set.induct) (auto split: if_splits)

lemma merge_objects_arrays:
  "\<forall>m \<in> snd ` set merged. has_arrays m \<Longrightarrow>
   \<forall>m \<in> snd ` set (merge_objects p objs merged). has_arrays m"
proof (induction objs arbitrary: merged)
  case Nil
  then show ?case by simp
next
  case (Cons obj objs)
  let ?m = "normalizeMovie p obj"
  let ?key = "makeKey p (title ?m)"
  have step: "\<forall>m \<in> snd ` set (map_set ?key v merged). has_arrays m" if "has_arrays v" for v
    using that Cons.prems map_set_values [of ?key v merged] by blast
  show ?case
  proof (cases "invalid_title ?m")
    case True
    with Cons show ?thesis by simp
  next
    case False
    show ?thesis
    proof (cases "map_of merged ?key")
      case None
      with False Cons.IH [OF step [OF has_arrays_normalizeMovie]] show ?thesis
        by (simp add: Let_def)
    next
      case (Some old)
      with False Cons.IH [OF step [OF has_arrays_mergeMovies]] show ?thesis
        by (simp add: Let_def)
    qed
  qed
qed

lemma loaded_movies_arrays: "m \<in> set (loaded_movies p objs) \<Longrightarrow> has_arrays m"
  using merge_objects_arrays [of "[]" p objs] by (auto simp: loaded_movies_def)

lemma renderLocal_arrays:
  assumes "\<forall>m \<in> set (data st). has_arrays m"
  shows "\<exists>st' cards. renderLocal p st = Inr (st', cards)"
proof -
  have "keeps p st m = Inr (matches_spec p st m)" if "m \<in> set (data st)" for m
    using that assms keeps_spec by blast
  then have "applyFilters p st (data st) = Inr (filter (matches_spec p st) (data st))"
    unfolding applyFilters_def by (rule array_filter_total)
  then show ?thesis by (simp add: renderLocal_def Let_def)
qed

lemma render_arrays:
  assumes "\<forall>m \<in> set (data st). has_arrays m"
  shows "\<exists>st' cards. render p env st = Inr (st', cards)"
proof -
  have "\<exists>st' cards. renderUsingApi p base env st = Inr (st', cards)" for base
    using renderLocal_arrays [OF assms]
    by (cases "api_cards p base env st") (simp_all add: renderUsingApi_def)
  with renderLocal_arrays [OF assms] show ?thesis by (simp add: render_def)
qed

text \<open>
  C5. The search rejects no input. Whatever the query and the selected filters, and
  whatever profile objects the catalog was loaded from (any of their properties may be
  absent, which normalizeMovie turns into empty strings and empty arrays), applyFilters
  on movies of the loaded catalog raises no exception: it returns the matching movies.
  So does render on such a catalog, whatever the backend answers. On the empty catalog
  applyFilters returns the empty list.
\<close>

theorem search_never_throws:
  assumes "set catalog \<subseteq> set (loaded_movies p objs)"
  shows "applyFilters p st catalog = Inr (filter (matches_spec p st) catalog)
         \<and> (\<exists>st' cards. render p env (st\<lparr>data := catalog\<rparr>) = Inr (st', cards))
         \<and> applyFilters p st [] = Inr []"
proof -
  have arrays: "has_arrays m" if "m \<in> set catalog" for m
    using that assms loaded_movies_arrays by blast
  then have "keeps p st m = Inr (matches_spec p st m)" if "m \<in> set catalog" for m
    using that keeps_spec by blast
  then have "applyFilters p st catalog = Inr (filter (matches_spec p st) catalog)"
    unfolding applyFilters_def by (rule array_filter_total)
  moreover have "\<exists>st' cards. render p env (st\<lparr>data := catalog\<rparr>) = Inr (st', cards)"
    using arrays by (intro render_arrays) simp
  moreover have "applyFilters p st [] = Inr []" by (simp add: applyFilters_def)
  ultimately show ?thesis by simp
qed

lemma normalize_bare:
  "normalizeMovie latin1 bare_object =
     \<lparr>title = Some (js ''Up''), pacing_style = Some [], energy_level = Some [],
      visual_aesthetic = Some [], target_audience = Some [], narrative_structure = Some [],
      profile_text = Some [], emotional_tone = Some [], themes = Some [],
      similar_films = Some [], cultural_context = Some [], discussion_topics = Some []\<rparr>"
  by (simp add: normalizeMovie_def bare_object_def title_only_def nullish_or_def
      falsy_or_def truthy_def js_def formatEmotionalTone_def formatTheme_def not_none_def
      truthy_strings_def toArray_def)

lemma loaded_bare: "loaded_movies latin1 [bare_object] = [normalizeMovie latin1 bare_object]"
  by (simp add: loaded_movies_def Let_def invalid_title_def normalize_bare truthy_def
      nullish_or_def trim_def is_ws_def js_def)

theorem search_never_throws_witness:
  "loaded_movies latin1 [bare_object] = [normalizeMovie latin1 bare_object]
   \<and> applyFilters latin1 (initial_state\<lparr>search := js ''up''\<rparr>)
         (loaded_movies latin1 [bare_object])
       = Inr [normalizeMovie latin1 bare_object]
   \<and> applyFilters latin1 (initial_state\<lparr>search := js ''up''\<rparr>) [] = Inr []"
proof -
  let ?st = "initial_state\<lparr>search := js ''up''\<rparr>"
  have "set (loaded_movies latin1 [bare_object]) \<subseteq> set (loaded_movies latin1 [bare_object])"
    by simp
  note search_never_throws [OF this, of ?st offline]
  moreover have "matches_spec latin1 ?st (normalizeMovie latin1 bare_object)"
    unfolding normalize_bare
    by (simp add: matches_spec_code search_text_def latin1_def lower_unit_def
        has_lowercase_def nullish_or_def initial_state_def js_def elements_def)
  ultimately show ?thesis by (simp add: loaded_bare)
qed

section \<open>Properties of makeKey\<close>

lemma strip_diacritics_filter: "strip_diacritics s = filter (\<lambda>d. \<not> is_diacritic d) s"
  unfolding strip_diacritics_def by (induction s) simp_all

lemma set_collapse_ws: "set (collapse_ws s) \<subseteq> insert 0x20 (set s)"
proof (induction s rule: collapse_ws.induct)
  case 1
  show ?case by simp
next
  case (2 c cs)
  show ?case
  proof (cases "is_ws c")
    case True
    with 2 have "set (collapse_ws (dropWhile is_ws cs)) \<subseteq> insert 0x20 (set (dropWhile is_ws cs))"
      by simp
    moreover have "set (dropWhile is_ws cs) \<subseteq> set cs" by (rule set_dropWhileD [THEN subsetI])
    ultimately show ?thesis using True by auto
  next
    case False
    with 2 show ?thesis by auto
  qed
qed

lemma set_trim: "set (trim s) \<subseteq> set s"
proof -
  have "set (dropWhile is_ws (rev (dropWhile is_ws s))) \<subseteq> set (rev (dropWhile is_ws s))"
    by (rule set_dropWhileD [THEN subsetI])
  moreover have "set (dropWhile is_ws s) \<subseteq> set s" by (rule set_dropWhileD [THEN subsetI])
  ultimately show ?thesis by (auto simp: trim_def)
qed

lemma collapse_ws_hd: "s \<noteq> [] \<Longrightarrow> \<not> is_ws (hd s) \<Longrightarrow> collapse_ws s \<noteq> [] \<and> hd (collapse_ws s) = hd s"
  by (cases s) auto

lemma collapsed_cons:
  "collapsed (c # s) \<longleftrightarrow> (is_ws c \<longrightarrow> c = 0x20 \<and> (s = [] \<or> \<not> is_ws (hd s))) \<and> collapsed s"
  by (cases s) auto

lemma collapsed_collapse_ws: "collapsed (collapse_ws s)"
proof (induction s rule: collapse_ws.induct)
  case 1
  show ?case by simp
next
  case (2 c cs)
  show ?case
  proof (cases "is_ws c")
    case True
    let ?r = "dropWhile is_ws cs"
    from 2 True have ih: "collapsed (collapse_ws ?r)" by simp
    have "collapse_ws ?r = [] \<or> \<not> is_ws (hd (collapse_ws ?r))"
    proof (cases "?r = []")
      case True
      then show ?thesis by (metis collapse_ws.simps(1))
    next
      case False
      then have "\<not> is_ws (hd ?r)" by (rule hd_dropWhile)
      with False collapse_ws_hd show ?thesis by metis
    qed
    with ih True show ?thesis by (simp add: collapsed_cons)
  next
    case False
    with 2 show ?thesis by (simp add: collapsed_cons)
  qed
qed

lemma collapsed_fixed: "collapsed s \<Longrightarrow> collapse_ws s = s"
proof (induction s rule: collapsed.induct)
  case 1
  show ?case by simp
next
  case (2 c)
  then show ?case by auto
next
  case (3 c d s)
  then show ?case by (auto simp: dropWhile_eq_self_iff)
qed

lemma collapsed_append: "collapsed (a @ b) \<Longrightarrow> collapsed a \<and> collapsed b"
proof (induction a)
  case Nil
  then show ?case by simp
next
  case (Cons c a)
  then show ?case by (cases a) (auto simp: collapsed_cons)
qed

lemma collapsed_trim: "collapsed s \<Longrightarrow> collapsed (trim s)"
proof -
  assume c: "collapsed s"
  let ?u = "dropWhile is_ws s"
  have "s = takeWhile is_ws s @ ?u" by simp
  with c collapsed_append have u: "collapsed ?u" by metis
  have "rev ?u = takeWhile is_ws (rev ?u) @ dropWhile is_ws (rev ?u)" by simp
  then have "?u = rev (dropWhile is_ws (rev ?u)) @ rev (takeWhile is_ws (rev ?u))"
    by (metis rev_append rev_rev_ident)
  with u collapsed_append have "collapsed (rev (dropWhile is_ws (rev ?u)))" by metis
  then show ?thesis by (simp add: trim_def)
qed

lemma trim_end_last:
  "dropWhile P (rev (rev (dropWhile P (rev u)))) = dropWhile P (rev u)"
  by (simp add: dropWhile_eq_self_iff hd_dropWhile)

lemma trim_idem: "trim (trim s) = trim s"
proof -
  let ?u = "dropWhile is_ws s"
  let ?v = "rev (dropWhile is_ws (rev ?u))"
  have uv: "?u = ?v @ rev (takeWhile is_ws (rev ?u))"
    by (metis rev_append rev_rev_ident takeWhile_dropWhile_id)
  have "dropWhile is_ws ?v = ?v"
  proof (cases "?v = []")
    case True
    then show ?thesis by (metis dropWhile.simps(1))
  next
    case False
    with uv have "hd ?v = hd ?u" by (metis hd_append2)
    moreover from False have "?u \<noteq> []"
      by (metis dropWhile.simps(1) rev.simps(1))
    then have "\<not> is_ws (hd ?u)" by (rule hd_dropWhile)
    ultimately show ?thesis by (simp add: dropWhile_eq_self_iff)
  qed
  then have "trim ?v = rev (dropWhile is_ws (rev ?v))" by (simp add: trim_def)
  also have "\<dots> = ?v" by (simp add: dropWhile_eq_self_iff hd_dropWhile)
  finally show ?thesis by (simp add: trim_def)
qed

lemma makeKey_Some:
  "makeKey p (Some x) = trim (collapse_ws (strip_diacritics (normalize_NFKD p (toLowerCase p x))))"
  by (simp add: makeKey_def falsy_or_def truthy_def nullish_or_def)

text \<open>
  The last three steps of makeKey reach a fixed point: a key that lowercasing and
  decomposition leave unchanged is its own key. Only the first two steps can make a
  second application differ from the first.
\<close>

lemma makeKey_fixed_point:
  assumes "toLowerCase p (makeKey p t) = makeKey p t"
    and "normalize_NFKD p (makeKey p t) = makeKey p t"
  shows "makeKey p (Some (makeKey p t)) = makeKey p t"
proof -
  define z where
    "z = strip_diacritics (normalize_NFKD p (toLowerCase p
           (nullish_or (falsy_or t (Some [])) [])))"
  have y: "makeKey p t = trim (collapse_ws z)" by (simp add: makeKey_def z_def)
  have "set (trim (collapse_ws z)) \<subseteq> insert 0x20 (set z)"
    using set_trim set_collapse_ws by blast
  moreover have "\<not> is_diacritic d" if "d \<in> set z" for d
    using that by (simp add: z_def strip_diacritics_filter)
  moreover have "\<not> is_diacritic 0x20" by (simp add: is_diacritic_def)
  ultimately have "\<not> is_diacritic d" if "d \<in> set (trim (collapse_ws z))" for d
    using that by blast
  then have "strip_diacritics (trim (collapse_ws z)) = trim (collapse_ws z)"
    by (simp add: strip_diacritics_filter)
  moreover have "collapsed (trim (collapse_ws z))"
    by (intro collapsed_trim collapsed_collapse_ws)
  then have "collapse_ws (trim (collapse_ws z)) = trim (collapse_ws z)"
    by (rule collapsed_fixed)
  ultimately have "makeKey p (Some (trim (collapse_ws z))) = trim (trim (collapse_ws z))"
    using assms by (simp add: makeKey_Some y)
  then show ?thesis by (simp add: y trim_idem)
qed

text \<open>
  C6. makeKey is not idempotent at the title that is the trade mark sign U+2122. On
  every platform that has the Unicode data for it (the sign has no lowercase, its
  compatibility decomposition is \<open>TM\<close>, the lowercase of \<open>TM\<close> is \<open>tm\<close>, and \<open>tm\<close>
  is its own decomposition), makeKey returns the capitals \<open>TM\<close>, because it
  lowercases before it decomposes, and a second application returns \<open>tm\<close>.
\<close>

theorem makeKey_trade_mark:
  assumes "toLowerCase p [0x2122] = [0x2122]"
    and "normalize_NFKD p [0x2122] = js ''TM''"
    and "toLowerCase p (js ''TM'') = js ''tm''"
    and "normalize_NFKD p (js ''tm'') = js ''tm''"
  shows "makeKey p (Some [0x2122]) = js ''TM''
         \<and> makeKey p (Some (makeKey p (Some [0x2122]))) = js ''tm''
         \<and> makeKey p (Some (makeKey p (Some [0x2122]))) \<noteq> makeKey p (Some [0x2122])"
proof -
  have a: "makeKey p (Some [0x2122]) = js ''TM''"
    unfolding makeKey_Some assms
    by (simp add: strip_diacritics_filter is_diacritic_def is_ws_def trim_def js_def)
  have b: "makeKey p (Some (js ''TM'')) = js ''tm''"
    unfolding makeKey_Some assms
    by (simp add: strip_diacritics_filter is_diacritic_def is_ws_def trim_def js_def)
  have "js ''tm'' \<noteq> js ''TM''" by (simp add: js_def)
  with a b show ?thesis by simp
qed

theorem makeKey_trade_mark_witness:
  "makeKey latin1 (Some [0x2122]) = js ''TM''
   \<and> makeKey latin1 (Some (makeKey latin1 (Some [0x2122]))) = js ''tm''
   \<and> makeKey latin1 (Some (makeKey latin1 (Some [0x2122])))
       \<noteq> makeKey latin1 (Some [0x2122])"
proof -
  have "toLowerCase latin1 [0x2122] = [0x2122]"
    and "normalize_NFKD latin1 [0x2122] = js ''TM''"
    and "toLowerCase latin1 (js ''TM'') = js ''tm''"
    and "normalize_NFKD latin1 (js ''tm'') = js ''tm''"
    by (simp_all add: latin1_defs js_def)
  then show ?thesis by (rule makeKey_trade_mark)
qed

section \<open>Properties of rendering\<close>






lemma useApi_example:
  "search st \<noteq> [] \<Longrightarrow> apiBase st = [] \<Longrightarrow> apiBaseInput env = Some (js ''localhost:8003/'')
   \<Longrightarrow> useApi env st"
  by (simp add: useApi_def rawBase_def normalizeBase_def trim_def is_ws_def
      has_scheme_def ascii_lower_def drop_final_slash_def falsy_or_def truthy_def
      nullish_or_def js_def)



lemma api_cards_failed:
  assumes "\<forall>request. search_url base st = Inr request \<longrightarrow> failed (backend env request)"
  shows "\<exists>e. api_cards p base env st = Inl e"
proof (cases "search_url base st")
  case (Inl e)
  then show ?thesis by (simp add: api_cards_def)
next
  case (Inr request)
  with assms have "failed (backend env request)" by blast
  with Inr show ?thesis by (cases "backend env request") (simp_all add: api_cards_def)
qed

text \<open>
  C4. When the /search call that render makes fails (the fetch is rejected, the status
  is not ok, the body is not JSON or not usable), whatever the backend would answer to
  other requests, render does what renderLocal does for the same page state, hence for
  the same query, and on a catalog whose movies have their arrays that is a page of
  results and no exception.
\<close>

theorem backend_failure_falls_back:
  assumes "\<forall>request. search_url (normalizeBase (rawBase env st)) st = Inr request
             \<longrightarrow> failed (backend env request)"
    and "\<forall>m \<in> set (data st). has_arrays m"
  shows "render p env st = renderLocal p st
         \<and> (\<exists>st' cards. render p env st = Inr (st', cards))"
proof -
  from api_cards_failed [OF assms(1)] obtain e
    where "api_cards p (normalizeBase (rawBase env st)) env st = Inl e" by blast
  then have "renderUsingApi p (normalizeBase (rawBase env st)) env st = renderLocal p st"
    by (simp add: renderUsingApi_def)
  then have "render p env st = renderLocal p st" by (simp add: render_def)
  with renderLocal_arrays [OF assms(2)] show ?thesis by simp
qed

theorem backend_failure_falls_back_witness:
  "useApi flaky (initial_state\<lparr>data := [amelie, alien], search := js ''stowaway''\<rparr>)
   \<and> backend flaky (search_params (js ''http://localhost:8003'')
        (initial_state\<lparr>data := [amelie, alien], search := js ''stowaway''\<rparr>)) = Status_not_ok
   \<and> backend flaky (search_params (js ''http://localhost:8003'')
        (initial_state\<lparr>data := [amelie, alien], search := js ''alien''\<rparr>)) = Results []
   \<and> render latin1 flaky (initial_state\<lparr>data := [amelie, alien], search := js ''stowaway''\<rparr>)
       = Inr (initial_state\<lparr>data := [amelie, alien], search := js ''stowaway''\<rparr>, [alien])"
proof -
  let ?st = "initial_state\<lparr>data := [amelie, alien], search := js ''stowaway''\<rparr>"
  have down: "\<forall>request. search_url (normalizeBase (rawBase flaky ?st)) ?st = Inr request
      \<longrightarrow> failed (backend flaky request)"
    by (auto simp: search_url_def search_params_def flaky_def initial_state_def
        split: if_splits)
  have arrays: "\<forall>m \<in> set (data ?st). has_arrays m" by (simp add: example_defs)
  have api: "useApi flaky ?st"
    by (rule useApi_example) (simp_all add: initial_state_def flaky_def js_def)
  have keep: "keeps latin1 ?st alien = Inr True" "keeps latin1 ?st amelie = Inr False"
    by (simp_all add: keeps_spec matches_spec_code search_text_def latin1_def
        lower_unit_def has_lowercase_def nullish_or_def example_defs)
  have catalog: "data ?st = [amelie, alien]" by (simp add: initial_state_def)
  have found: "applyFilters latin1 ?st [amelie, alien] = Inr [alien]"
    by (simp add: applyFilters_def keep)
  have "renderLocal latin1 ?st = Inr (?st, [alien])"
    unfolding renderLocal_def catalog found
    by (simp add: initial_state_def ceil_div_def js_slice_def slice_index_def)
  with backend_failure_falls_back [OF down arrays, of latin1] api show ?thesis
    by (simp add: flaky_def search_params_def initial_state_def js_def)
qed

section \<open>Properties of the rank fusion\<close>


lemma rank_from_ge: "rank_from n xs x = Some r \<Longrightarrow> n \<le> r"
  by (induction xs arbitrary: n) (auto split: if_splits dest: Suc_leD)

lemma rank_in_positive: "rank_in xs x = Some r \<Longrightarrow> 1 \<le> r"
  unfolding rank_in_def by (rule rank_from_ge)

lemma rank_in_first: "rank_in xs x = Some 1 \<Longrightarrow> \<exists>rest. xs = x # rest"
proof (cases xs)
  case Nil
  assume "rank_in xs x = Some 1"
  with Nil show ?thesis by (simp add: rank_in_def)
next
  case (Cons y ys)
  assume r: "rank_in xs x = Some 1"
  show ?thesis
  proof (cases "x = y")
    case True
    with Cons show ?thesis by simp
  next
    case False
    with r Cons have "rank_from 2 ys x = Some 1" by (simp add: rank_in_def numeral_2_eq_2)
    then have "(2::nat) \<le> 1" by (rule rank_from_ge)
    then show ?thesis by simp
  qed
qed

lemma rank_in_other:
  assumes "xs = a # rest" and "c \<noteq> a"
  shows "rank_in xs c = None \<or> (\<exists>r. rank_in xs c = Some r \<and> 2 \<le> r)"
proof (cases "rank_from 2 rest c")
  case None
  with assms show ?thesis by (simp add: rank_in_def numeral_2_eq_2)
next
  case (Some r)
  then have "2 \<le> r" by (rule rank_from_ge)
  with Some assms show ?thesis by (simp add: rank_in_def numeral_2_eq_2)
qed

lemma reciprocal_rank_mono:
  assumes "0 \<le> k" and "at_least_as_high ra rb"
    and "\<And>n. ra = Some n \<Longrightarrow> 1 \<le> n" and "\<And>n. rb = Some n \<Longrightarrow> 1 \<le> n"
  shows "reciprocal_rank k rb \<le> reciprocal_rank k ra"
proof (cases rb)
  case None
  with assms(1) show ?thesis by (cases ra) (simp_all add: reciprocal_rank_def)
next
  case (Some n)
  with assms(2) obtain m where m: "ra = Some m" and le: "m \<le> n" by (cases ra) auto
  from assms(3) m have "1 \<le> m" by simp
  with assms(1) have "0 < k + real m" by simp
  with le have "1 / (k + real n) \<le> 1 / (k + real m)"
    by (intro divide_left_mono) (auto intro: mult_pos_pos)
  with Some m show ?thesis by (simp add: reciprocal_rank_def)
qed

lemma reciprocal_rank_bound:
  assumes "0 \<le> k" and "r = None \<or> (\<exists>n. r = Some n \<and> 2 \<le> n)"
  shows "reciprocal_rank k r \<le> 1 / (k + 2)"
proof (cases r)
  case None
  with assms(1) show ?thesis by (simp add: reciprocal_rank_def)
next
  case (Some n)
  with assms(2) have "2 \<le> n" by simp
  then have "k + 2 \<le> k + real n" by simp
  moreover from assms(1) have "0 < k + 2" by simp
  ultimately have "1 / (k + real n) \<le> 1 / (k + 2)"
    by (intro divide_left_mono) (auto intro: mult_pos_pos)
  with Some show ?thesis by (simp add: reciprocal_rank_def)
qed

lemma top_of_both_wins:
  assumes "0 \<le> k" and "rank_in kw a = Some 1" and "rank_in sem a = Some 1" and "c \<noteq> a"
  shows "fused_score k kw sem c < fused_score k kw sem a"
proof -
  from assms(2) have "\<exists>rest. kw = a # rest" by (rule rank_in_first)
  moreover from assms(3) have "\<exists>rest. sem = a # rest" by (rule rank_in_first)
  ultimately obtain t1 t2 where "kw = a # t1" "sem = a # t2" by blast
  then have
    "reciprocal_rank k (rank_in kw c) \<le> 1 / (k + 2)"
    "reciprocal_rank k (rank_in sem c) \<le> 1 / (k + 2)"
    by (auto intro!: reciprocal_rank_bound [OF assms(1)] rank_in_other [OF _ assms(4)])
  then have "fused_score k kw sem c \<le> 2 / (k + 2)" by (simp add: fused_score_def)
  also from assms(1) have "2 / (k + 2) < 2 / (k + 1)"
    by (intro divide_strict_left_mono) (auto intro: mult_pos_pos)
  also from assms(2,3) have "2 / (k + 1) = fused_score k kw sem a"
    by (simp add: fused_score_def reciprocal_rank_def add.commute)
  finally show ?thesis .
qed

lemma sorted_least_first:
  assumes "sorted (map f ys)" and "a \<in> set ys"
    and "\<And>c. c \<in> set ys \<Longrightarrow> c \<noteq> a \<Longrightarrow> f a < f c"
  shows "\<exists>rest. ys = a # rest"
proof (cases ys)
  case Nil
  with assms(2) show ?thesis by simp
next
  case (Cons y rest)
  show ?thesis
  proof (cases "y = a")
    case True
    with Cons show ?thesis by simp
  next
    case False
    with assms(2) Cons have "a \<in> set rest" by simp
    with assms(1) Cons have "f y \<le> f a" by auto
    moreover from assms(3) [of y] False Cons have "f a < f y" by simp
    ultimately show ?thesis by simp
  qed
qed

lemma fused_score_mono:
  assumes "0 \<le> k"
    and "at_least_as_high (rank_in kw a) (rank_in kw b)"
    and "at_least_as_high (rank_in sem a) (rank_in sem b)"
  shows "fused_score k kw sem b \<le> fused_score k kw sem a"
proof -
  have pos: "1 \<le> n" if "rank_in xs x = Some n" for xs :: "'a list" and x n
    using that by (rule rank_in_positive)
  have "reciprocal_rank k (rank_in kw b) \<le> reciprocal_rank k (rank_in kw a)"
    using assms(1,2) pos pos by (rule reciprocal_rank_mono)
  moreover
  have "reciprocal_rank k (rank_in sem b) \<le> reciprocal_rank k (rank_in sem a)"
    using assms(1,3) pos pos by (rule reciprocal_rank_mono)
  ultimately show ?thesis by (simp add: fused_score_def)
qed

lemma fuse_top_first:
  assumes "0 \<le> k" and "rank_in kw a = Some 1" and "rank_in sem a = Some 1"
  shows "\<exists>rest. fuse kw sem k = a # rest"
proof -
  let ?key = "\<lambda>x. - fused_score k kw sem x"
  from assms(2) have "\<exists>rest. kw = a # rest" by (rule rank_in_first)
  then obtain t where "kw = a # t" ..
  then have member: "a \<in> set (fuse kw sem k)" by (simp add: fuse_def)
  have "sorted (map ?key (fuse kw sem k))" unfolding fuse_def by (rule sorted_sort_key)
  from this member show ?thesis
  proof (rule sorted_least_first [where f = ?key])
    fix c assume "c \<noteq> a"
    with assms have "fused_score k kw sem c < fused_score k kw sem a"
      by (intro top_of_both_wins)
    then show "?key a < ?key c" by simp
  qed
qed

text \<open>
  C7. For a fusion constant that is not negative: a candidate ranked at least as high as
  another in the keyword list and in the semantic list (a missing rank being the lowest)
  never has the lower fused score; and a movie ranked #1 in both lists has a higher
  fused score than every other candidate and is the first of the fused sequence, hence
  at or above every movie that is in one list only.
\<close>

theorem fusion_monotonic:
  assumes "0 \<le> k"
  shows "(at_least_as_high (rank_in kw a) (rank_in kw b)
          \<and> at_least_as_high (rank_in sem a) (rank_in sem b)
          \<longrightarrow> fused_score k kw sem b \<le> fused_score k kw sem a)
         \<and> (rank_in kw a = Some 1 \<and> rank_in sem a = Some 1
          \<longrightarrow> (\<exists>rest. fuse kw sem k = a # rest)
              \<and> (\<forall>c. c \<noteq> a \<longrightarrow> fused_score k kw sem c < fused_score k kw sem a))"
proof (intro conjI impI allI)
  assume "at_least_as_high (rank_in kw a) (rank_in kw b)
    \<and> at_least_as_high (rank_in sem a) (rank_in sem b)"
  with assms show "fused_score k kw sem b \<le> fused_score k kw sem a"
    by (intro fused_score_mono) simp_all
next
  assume "rank_in kw a = Some 1 \<and> rank_in sem a = Some 1"
  with assms show "\<exists>rest. fuse kw sem k = a # rest"
    by (intro fuse_top_first) simp_all
next
  fix c
  assume "rank_in kw a = Some 1 \<and> rank_in sem a = Some 1" and "c \<noteq> a"
  with assms show "fused_score k kw sem c < fused_score k kw sem a"
    by (intro top_of_both_wins) simp_all
qed

theorem fusion_monotonic_witness:
  "(0::real) \<le> 60
   \<and> rank_in [''m1'', ''m2'', ''m3''] ''m1'' = Some 1 \<and> rank_in [''m1'', ''m4''] ''m1'' = Some 1
   \<and> at_least_as_high (rank_in [''m1'', ''m2'', ''m3''] ''m1'') (rank_in [''m1'', ''m2'', ''m3''] ''m4'')
   \<and> fused_score 60 [''m1'', ''m2'', ''m3''] [''m1'', ''m4''] ''m4''
       \<le> fused_score 60 [''m1'', ''m2'', ''m3''] [''m1'', ''m4''] ''m1''
   \<and> fuse [''m1'', ''m2'', ''m3''] [''m1'', ''m4''] 60 = [''m1'', ''m2'', ''m4'', ''m3'']"
proof -
  have k: "(0::real) \<le> 60" by simp
  have ranks: "rank_in [''m1'', ''m2'', ''m3''] ''m1'' = Some 1"
    "rank_in [''m1'', ''m4''] ''m1'' = Some 1"
    "rank_in [''m1'', ''m2'', ''m3''] ''m4'' = None"
    "rank_in [''m1'', ''m4''] ''m4'' = Some 2"
    by (simp_all add: rank_in_def)
  have order: "fuse [''m1'', ''m2'', ''m3''] [''m1'', ''m4''] 60 = [''m1'', ''m2'', ''m4'', ''m3'']"
    by (simp add: fuse_def fused_score_def rank_in_def reciprocal_rank_def)
  from fusion_monotonic [OF k, of "[''m1'', ''m2'', ''m3'']" "''m1''" "''m4''" "[''m1'', ''m4'']"]
  have "fused_score 60 [''m1'', ''m2'', ''m3''] [''m1'', ''m4''] ''m4''
       \<le> fused_score 60 [''m1'', ''m2'', ''m3''] [''m1'', ''m4''] ''m1''"
    by (simp add: ranks)
  with ranks order show ?thesis by simp
qed

section \<open>Properties of the orchestrator\<close>


lemma passes_filters_excluded:
  "passes_filters keep intent m \<Longrightarrow> g \<in> set (excludedGenres intent) \<Longrightarrow> g \<notin> set (genres m)"
  by (auto simp: passes_filters_def list_all_iff)

lemma set_rerank: "set (rerank scorer query candidates) = set candidates"
  by (cases scorer) (simp_all add: rerank_def)

lemma backend_search_filtered:
  assumes "m \<in> set (backend_search parts catalog query limit)"
  shows "passes_filters (keepUnknown parts) (parseIntent parts query) m \<and> m \<in> set catalog"
proof -
  let ?fused = "fuse (keywordSearch parts catalog query)
      (case semanticSearch parts of None \<Rightarrow> [] | Some semantic \<Rightarrow> semantic catalog query)
      (fusionConstant parts)"
  let ?filtered = "filter (passes_filters (keepUnknown parts) (parseIntent parts query))
      (List.map_filter (find_record catalog) ?fused)"
  from assms have "m \<in> set (take (effective_limit limit)
      (rerank (rerankScore parts) query (take (rerankWindow parts) ?filtered)))"
    by (simp add: backend_search_def Let_def)
  then have "m \<in> set (rerank (rerankScore parts) query (take (rerankWindow parts) ?filtered))"
    by (rule in_set_takeD)
  then have "m \<in> set (take (rerankWindow parts) ?filtered)" by (simp add: set_rerank)
  then have m: "m \<in> set ?filtered" by (rule in_set_takeD)
  then have "passes_filters (keepUnknown parts) (parseIntent parts query) m" by simp
  moreover from m obtain i where "find_record catalog i = Some m"
    by (auto simp: List.map_filter_def)
  then have "m \<in> set catalog"
    by (auto simp: find_record_def find_Some_iff)
  ultimately show ?thesis by simp
qed

text \<open>
  C8. Whatever the parser, the retrieval steps, the re-ranker and the catalog: when the
  parsed intent of a query excludes a genre, no movie that the search returns has that
  genre. The instance below is the scenario of the spec: the query "sci-fi, no horror"
  excludes a movie tagged both Sci-Fi and Horror.
\<close>

theorem excluded_genre_absent:
  assumes "g \<in> set (excludedGenres (parseIntent parts query))"
    and "m \<in> set (backend_search parts catalog query limit)"
  shows "g \<notin> set (genres m)"
  using backend_search_filtered [OF assms(2)] assms(1) passes_filters_excluded by blast

lemma excluded_words_parsed:
  "map_of table x = Some g \<Longrightarrow> x \<in> set (excluded_words ws) \<Longrightarrow>
   g \<in> set (excludedGenres (parse_genres table ws))"
  by (auto simp: parse_genres_def genres_of_def List.map_filter_def intro!: image_eqI [where x = x])


lemma example_intent:
  "parseIntent keyword_only ''sci-fi, no horror''
   = \<lparr>intentGenres = [''Sci-Fi''], excludedGenres = [''Horror''], runtimeMax = None,
      yearRange = None, intentThemes = []\<rparr>"
  by (simp add: keyword_only_def parse_genres_def genres_of_def List.map_filter_def
      query_words_def genre_table_def)

lemma example_fused: "fuse [''m1'', ''m2'', ''m3''] [] 60 = [''m1'', ''m2'', ''m3'']"
  by (simp add: fuse_def fused_score_def rank_in_def reciprocal_rank_def)

lemma example_search:
  "backend_search keyword_only [nostromo, arrival, scream] ''sci-fi, no horror'' 0 = [arrival]"
  unfolding backend_search_def example_intent Let_def
  by (simp add: keyword_only_def example_fused List.map_filter_def find_record_def
      nostromo_def arrival_def scream_def passes_filters_def within_runtime_def
      within_years_def rerank_def effective_limit_def)

theorem excluded_genre_absent_witness:
  "''Horror'' \<in> set (excludedGenres (parseIntent keyword_only ''sci-fi, no horror''))
   \<and> backend_search keyword_only [nostromo, arrival, scream] ''sci-fi, no horror'' 0
       = [arrival]
   \<and> ''Horror'' \<notin> set (genres arrival)"
proof -
  have excluded:
    "''Horror'' \<in> set (excludedGenres (parseIntent keyword_only ''sci-fi, no horror''))"
    by (simp add: example_intent)
  have found: "arrival \<in> set (backend_search keyword_only [nostromo, arrival, scream]
      ''sci-fi, no horror'' 0)"
    by (simp add: example_search)
  from excluded_genre_absent [OF excluded found] excluded example_search
  show ?thesis by simp
qed

end
